theory Spec2Isabelle
  imports Main "HOL-Library.Word"
begin

section \<open>Shader specialization keys (shader\_recompiler/specialization.h)\<close>

text \<open>
  A shallow embedding of \<^verbatim>\<open>Shader::StageSpecialization\<close>: its constructor, which
  builds a specialization from a shader's resource descriptors, and its
  \<^verbatim>\<open>operator==\<close>, the comparison the permutation cache uses.

  Fixed-width fields are words: \<^verbatim>\<open>u32\<close> is \<open>32 word\<close>, the bit-fields
  \<^verbatim>\<open>u16 stride : 14\<close> and \<^verbatim>\<open>u16 is_storage : 1\<close> are \<open>14 word\<close> and \<open>1 word\<close>.
  The counter \<^verbatim>\<open>binding\<close> and the loop indices \<^verbatim>\<open>i\<close> are \<^verbatim>\<open>u32\<close> in the source;
  they count the elements of vectors held in memory, whose sizes stay far below
  \<open>2 ^ 32\<close>, so they are natural numbers here.
\<close>

type_synonym u32 = "32 word"

subsection \<open>Collaborators declared outside specialization.h\<close>

text \<open>
  Modelled from the spec: the enumerations and small structs of \<^verbatim>\<open>AmdGpu\<close>
  (number format, number class, component mapping, number conversion) are declared in
  other headers of the repository. Their values are opaque codes
  compared by equality; the code \<open>0\<close> stands for the value-initialised object
  (\<^verbatim>\<open>T{}\<close>). Of \<^verbatim>\<open>AmdGpu::ImageType\<close> only the enumerator \<^verbatim>\<open>Color2D\<close> is named by
  specialization.h.
\<close>

type_synonym NumberFormat = nat
type_synonym NumberClass = nat
type_synonym CompMapping = nat
type_synonym NumberConversion = nat

datatype ImageType = Color2D | ImageType_other nat

text \<open>
  Modelled from the spec: hardware descriptor records (sharps). ``Buffer records expose
  stride, size, number format; image records expose bound dimensionality type, number
  format, destination component mapping, number conversion; sampler records expose a
  force-unnormalized flag; fmask-bearing image records additionally expose
  width/height.'' Each field is named after the accessor that specialization.h calls.
\<close>

record Sharp =
  GetNumberFmt :: NumberFormat
  DstSelect :: CompMapping
  GetNumberConversion :: NumberConversion

record Buffer = Sharp +
  GetStride :: u32
  GetSize :: u32

record Image = Sharp +
  GetBoundType :: ImageType
  width :: u32
  height :: u32

record Sampler =
  force_unnormalized :: bool

text \<open>
  Modelled from the spec: the stage and the logical stage of the provider. Only
  \<^verbatim>\<open>Stage::Vertex\<close>, \<^verbatim>\<open>LogicalStage::TessellationControl\<close> and
  \<^verbatim>\<open>LogicalStage::TessellationEval\<close> are named by specialization.h.
\<close>

datatype Stage = Vertex | Stage_other nat

datatype LogicalStage = TessellationControl | TessellationEval | LogicalStage_other nat

text \<open>
  Modelled from the spec: resource descriptors are opaque handles; what they resolve to
  is given by the functions of \<open>Externals\<close> below. \<^verbatim>\<open>Gcn::FetchShaderData\<close> is the
  ``structured list of vertex attribute descriptors'' with the rest of its content
  opaque; \<^verbatim>\<open>RuntimeInfo\<close> carries the two sub-records the constructor writes;
  \<^verbatim>\<open>Backend::Bindings\<close> and the tessellation constant buffer are opaque. These types are
  compared by value.
\<close>

type_synonym VertexAttribute = nat
type_synonym BufferResource = nat
type_synonym TextureBufferResource = nat
type_synonym ImageResource = nat
type_synonym FMaskResource = nat
type_synonym SamplerResource = nat
type_synonym Bindings = nat
type_synonym TessellationDataConstantBuffer = nat
type_synonym HullRuntimeInfo = nat
type_synonym VertexRuntimeInfo = nat

record FetchShaderData =
  attributes :: "VertexAttribute list"
  fetch_shader_rest :: nat

record RuntimeInfo =
  hs_info :: HullRuntimeInfo
  vs_info :: VertexRuntimeInfo
  runtime_info_rest :: nat

record Profile =
  support_legacy_vertex_attributes :: bool

record Info =
  stage :: Stage
  l_stage :: LogicalStage
  has_readconst :: bool
  info_buffers :: "BufferResource list"
  info_texture_buffers :: "TextureBufferResource list"
  info_images :: "ImageResource list"
  info_fmasks :: "FMaskResource list"
  info_samplers :: "SamplerResource list"

text \<open>
  The functions specialization.h calls and does not define, taken as parameters:
  the fetch-shader parser, the classification of number formats, the resolution of each
  kind of descriptor against the provider (\<^verbatim>\<open>desc.GetSharp(*info)\<close>, \<open>None\<close> when the
  source's test \<^verbatim>\<open>!sharp\<close> succeeds), \<^verbatim>\<open>desc.IsStorage(sharp)\<close>, and the
  tessellation constants.
\<close>

record Externals =
  ParseFetchShader :: "Info \<Rightarrow> FetchShaderData option"
  GetNumberClass :: "NumberFormat \<Rightarrow> NumberClass"
  IsInteger :: "NumberFormat \<Rightarrow> bool"
  attrib_GetSharp :: "VertexAttribute \<Rightarrow> Info \<Rightarrow> Buffer option"
  buffer_GetSharp :: "BufferResource \<Rightarrow> Info \<Rightarrow> Buffer option"
  buffer_IsStorage :: "BufferResource \<Rightarrow> Buffer \<Rightarrow> bool"
  texture_buffer_GetSharp :: "TextureBufferResource \<Rightarrow> Info \<Rightarrow> Buffer option"
  image_GetSharp :: "ImageResource \<Rightarrow> Info \<Rightarrow> Image option"
  image_IsStorage :: "ImageResource \<Rightarrow> Image \<Rightarrow> bool"
  fmask_GetSharp :: "FMaskResource \<Rightarrow> Info \<Rightarrow> Image option"
  sampler_GetSharp :: "SamplerResource \<Rightarrow> Info \<Rightarrow> Sampler option"
  ReadTessConstantBuffer :: "Info \<Rightarrow> TessellationDataConstantBuffer"
  hs_InitFromTessConstants ::
    "HullRuntimeInfo \<Rightarrow> TessellationDataConstantBuffer \<Rightarrow> HullRuntimeInfo"
  vs_InitFromTessConstants ::
    "VertexRuntimeInfo \<Rightarrow> TessellationDataConstantBuffer \<Rightarrow> VertexRuntimeInfo"

subsection \<open>The per-resource records\<close>

text \<open>
  Field names are the source's; a name shared by two structs is written qualified
  (\<open>BufferSpecialization.is_storage\<close>, \<open>ImageSpecialization.is_storage\<close>). The field
  \<^verbatim>\<open>size\<close> is \<open>size'\<close>.
\<close>

record VsAttribSpecialization =
  num_class :: NumberClass

record BufferSpecialization =
  stride :: "14 word"
  is_storage :: "1 word"
  size' :: u32

record TextureBufferSpecialization =
  is_integer :: bool
  dst_select :: CompMapping
  num_conversion :: NumberConversion

record ImageSpecialization =
  type :: ImageType
  is_integer :: bool
  is_storage :: bool
  dst_select :: CompMapping
  num_conversion :: NumberConversion

record FMaskSpecialization =
  width :: u32
  height :: u32

record SamplerSpecialization =
  force_unnormalized :: bool

text \<open>
  \<^verbatim>\<open>BufferSpecialization::operator==\<close>. In \<^verbatim>\<open>size >= other.is_storage\<close> the one-bit
  field is promoted and compared with the \<^verbatim>\<open>u32\<close> as an unsigned number; the last
  disjunct reads \<^verbatim>\<open>is_storage\<close> as a truth value.
\<close>

definition BufferSpecialization_eq :: "BufferSpecialization \<Rightarrow> BufferSpecialization \<Rightarrow> bool"
  where
  "BufferSpecialization_eq this other \<longleftrightarrow>
     stride this = stride other \<and>
     BufferSpecialization.is_storage this = BufferSpecialization.is_storage other \<and>
     (ucast (BufferSpecialization.is_storage other) \<le> size' this \<or>
      BufferSpecialization.is_storage this \<noteq> 0)"

text \<open>
  The element \<^verbatim>\<open>emplace_back()\<close> appends is value-initialised: fields without a default
  member initialiser are zero, the others take their initialiser.
\<close>

definition VsAttribSpecialization_init :: VsAttribSpecialization where
  "VsAttribSpecialization_init = \<lparr>num_class = 0\<rparr>"

definition BufferSpecialization_init :: BufferSpecialization where
  "BufferSpecialization_init =
     \<lparr>stride = 0, BufferSpecialization.is_storage = 0, size' = 0\<rparr>"

definition TextureBufferSpecialization_init :: TextureBufferSpecialization where
  "TextureBufferSpecialization_init =
     \<lparr>TextureBufferSpecialization.is_integer = False,
      TextureBufferSpecialization.dst_select = 0,
      TextureBufferSpecialization.num_conversion = 0\<rparr>"

definition ImageSpecialization_init :: ImageSpecialization where
  "ImageSpecialization_init =
     \<lparr>type = Color2D, ImageSpecialization.is_integer = False,
      ImageSpecialization.is_storage = False, ImageSpecialization.dst_select = 0,
      ImageSpecialization.num_conversion = 0\<rparr>"

definition FMaskSpecialization_init :: FMaskSpecialization where
  "FMaskSpecialization_init =
     \<lparr>FMaskSpecialization.width = 0, FMaskSpecialization.height = 0\<rparr>"

definition SamplerSpecialization_init :: SamplerSpecialization where
  "SamplerSpecialization_init = \<lparr>SamplerSpecialization.force_unnormalized = False\<rparr>"

subsection \<open>The validity bitset\<close>

text \<open>
  \<^verbatim>\<open>std::bitset<MaxStageResources>\<close> is a 64-bit word. \<^verbatim>\<open>set(pos)\<close> throws
  \<^verbatim>\<open>std::out_of_range\<close> when \<open>pos\<close> is not below the capacity; \<^verbatim>\<open>operator[]\<close> does no
  check, and reading a position outside the bitset, like indexing a vector outside its
  size, has no defined result: the model stops there with an error of its own.
\<close>

datatype error =
  out_of_range nat
  | bitset_index_undefined nat
  | vector_index_undefined nat

definition MaxStageResources :: nat where
  "MaxStageResources = 64"

definition bitset_set :: "64 word \<Rightarrow> nat \<Rightarrow> error + 64 word" where
  "bitset_set bits pos =
     (if pos < MaxStageResources then Inr (set_bit pos bits) else Inl (out_of_range pos))"

definition bitset_index :: "64 word \<Rightarrow> nat \<Rightarrow> error + bool" where
  "bitset_index bits pos =
     (if pos < MaxStageResources then Inr (bit bits pos) else Inl (bitset_index_undefined pos))"

subsection \<open>The aggregate and its constructor\<close>

record StageSpecialization =
  info :: Info
  runtime_info :: RuntimeInfo
  fetch_shader_data :: "FetchShaderData option"
  vs_attribs :: "VsAttribSpecialization list"
  bitset :: "64 word"
  buffers :: "BufferSpecialization list"
  tex_buffers :: "TextureBufferSpecialization list"
  images :: "ImageSpecialization list"
  fmasks :: "FMaskSpecialization list"
  samplers :: "SamplerSpecialization list"
  start :: Bindings

text \<open>
  \<^verbatim>\<open>ForEachSharp(spec_list, desc_list, func)\<close>: one value-initialised record is appended
  per descriptor, and \<open>func\<close> fills it when the descriptor resolves. The model takes the
  descriptor's \<^verbatim>\<open>GetSharp\<close> and the value-initialised record as arguments \<open>get\<close> and
  \<open>init\<close>.
\<close>

fun ForEachSharp ::
  "('desc \<Rightarrow> 'sharp option) \<Rightarrow> 'spec \<Rightarrow> ('spec \<Rightarrow> 'desc \<Rightarrow> 'sharp \<Rightarrow> 'spec) \<Rightarrow>
     'spec list \<Rightarrow> 'desc list \<Rightarrow> 'spec list" where
  "ForEachSharp get init func spec_list [] = spec_list"
| "ForEachSharp get init func spec_list (desc # desc_list) =
     (case get desc of
        None \<Rightarrow> ForEachSharp get init func (spec_list @ [init]) desc_list
      | Some sharp \<Rightarrow>
          ForEachSharp get init func (spec_list @ [func init desc sharp]) desc_list)"

text \<open>
  \<^verbatim>\<open>ForEachSharp(binding, spec_list, desc_list, func)\<close>: the same loop, threading the
  binding counter and the bitset. An unresolved descriptor only advances the counter; a
  resolved one sets the bit at the counter first, and \<^verbatim>\<open>bitset.set\<close> may throw.
\<close>

fun ForEachSharp_binding ::
  "('desc \<Rightarrow> 'sharp option) \<Rightarrow> 'spec \<Rightarrow> ('spec \<Rightarrow> 'desc \<Rightarrow> 'sharp \<Rightarrow> 'spec) \<Rightarrow>
     nat \<times> 64 word \<times> 'spec list \<Rightarrow> 'desc list \<Rightarrow> error + nat \<times> 64 word \<times> 'spec list"
  where
  "ForEachSharp_binding get init func (binding, bits, spec_list) [] =
     Inr (binding, bits, spec_list)"
| "ForEachSharp_binding get init func (binding, bits, spec_list) (desc # desc_list) =
     (case get desc of
        None \<Rightarrow>
          ForEachSharp_binding get init func (binding + 1, bits, spec_list @ [init]) desc_list
      | Some sharp \<Rightarrow>
          (case bitset_set bits binding of
             Inl e \<Rightarrow> Inl e
           | Inr bits' \<Rightarrow>
               ForEachSharp_binding get init func
                 (binding + 1, bits', spec_list @ [func init desc sharp]) desc_list))"

text \<open>The five lambdas of the constructor, each returning the record it was given, filled.\<close>

definition fill_vs_attrib ::
  "Externals \<Rightarrow> VsAttribSpecialization \<Rightarrow> VertexAttribute \<Rightarrow> Buffer \<Rightarrow> VsAttribSpecialization"
  where
  "fill_vs_attrib ext spec desc sharp =
     spec\<lparr>num_class := GetNumberClass ext (GetNumberFmt sharp)\<rparr>"

definition fill_buffer ::
  "Externals \<Rightarrow> BufferSpecialization \<Rightarrow> BufferResource \<Rightarrow> Buffer \<Rightarrow> BufferSpecialization"
  where
  "fill_buffer ext spec desc sharp =
     (let spec = spec\<lparr>stride := ucast (GetStride sharp)\<rparr>;
          spec = spec\<lparr>BufferSpecialization.is_storage :=
                   of_bool (buffer_IsStorage ext desc sharp)\<rparr>
      in if BufferSpecialization.is_storage spec = 0
         then spec\<lparr>size' := GetSize sharp\<rparr>
         else spec)"

definition fill_tex_buffer ::
  "Externals \<Rightarrow> TextureBufferSpecialization \<Rightarrow> TextureBufferResource \<Rightarrow> Buffer \<Rightarrow>
     TextureBufferSpecialization" where
  "fill_tex_buffer ext spec desc sharp =
     spec\<lparr>TextureBufferSpecialization.is_integer := IsInteger ext (GetNumberFmt sharp),
          TextureBufferSpecialization.dst_select := DstSelect sharp,
          TextureBufferSpecialization.num_conversion := GetNumberConversion sharp\<rparr>"

definition fill_image ::
  "Externals \<Rightarrow> ImageSpecialization \<Rightarrow> ImageResource \<Rightarrow> Image \<Rightarrow> ImageSpecialization"
  where
  "fill_image ext spec desc sharp =
     (let spec = spec\<lparr>type := GetBoundType sharp\<rparr>;
          spec = spec\<lparr>ImageSpecialization.is_integer := IsInteger ext (GetNumberFmt sharp)\<rparr>;
          spec = spec\<lparr>ImageSpecialization.is_storage := image_IsStorage ext desc sharp\<rparr>;
          spec = (if ImageSpecialization.is_storage spec
                  then spec\<lparr>ImageSpecialization.dst_select := DstSelect sharp\<rparr>
                  else spec)
      in spec\<lparr>ImageSpecialization.num_conversion := GetNumberConversion sharp\<rparr>)"

definition fill_fmask ::
  "FMaskSpecialization \<Rightarrow> FMaskResource \<Rightarrow> Image \<Rightarrow> FMaskSpecialization" where
  "fill_fmask spec desc sharp =
     spec\<lparr>FMaskSpecialization.width := Image.width sharp,
          FMaskSpecialization.height := Image.height sharp\<rparr>"

definition fill_sampler ::
  "SamplerSpecialization \<Rightarrow> SamplerResource \<Rightarrow> Sampler \<Rightarrow> SamplerSpecialization" where
  "fill_sampler spec desc sharp =
     spec\<lparr>SamplerSpecialization.force_unnormalized := Sampler.force_unnormalized sharp\<rparr>"

text \<open>
  The tail of the constructor: the tessellation stages initialise one sub-record of
  \<^verbatim>\<open>runtime_info\<close> from the tessellation constant buffer.
\<close>

definition init_tess_runtime_info :: "Externals \<Rightarrow> Info \<Rightarrow> RuntimeInfo \<Rightarrow> RuntimeInfo" where
  "init_tess_runtime_info ext info' rt =
     (if l_stage info' = TessellationControl \<or> l_stage info' = TessellationEval
      then (let tess_constants = ReadTessConstantBuffer ext info'
            in if l_stage info' = TessellationControl
               then rt\<lparr>hs_info := hs_InitFromTessConstants ext (hs_info rt) tess_constants\<rparr>
               else rt\<lparr>vs_info := vs_InitFromTessConstants ext (vs_info rt) tess_constants\<rparr>)
      else rt)"

text \<open>
  \<^verbatim>\<open>StageSpecialization::StageSpecialization(info', runtime_info', profile', start')\<close>.
  An exception thrown by \<^verbatim>\<open>bitset.set\<close> leaves the constructor: the result is \<open>Inl\<close>.
\<close>

definition StageSpecialization_ctor ::
  "Externals \<Rightarrow> Info \<Rightarrow> RuntimeInfo \<Rightarrow> Profile \<Rightarrow> Bindings \<Rightarrow> error + StageSpecialization"
  where
  "StageSpecialization_ctor ext info' runtime_info' profile' start' =
     (let fetch_shader_data' = ParseFetchShader ext info';
          vs_attribs' =
            (if stage info' = Vertex \<and> fetch_shader_data' \<noteq> None \<and>
                \<not> support_legacy_vertex_attributes profile'
             then ForEachSharp (\<lambda>desc. attrib_GetSharp ext desc info')
                    VsAttribSpecialization_init (fill_vs_attrib ext) []
                    (attributes (the fetch_shader_data'))
             else []);
          binding = (if has_readconst info' then 1 else 0)
      in case ForEachSharp_binding (\<lambda>desc. buffer_GetSharp ext desc info')
                BufferSpecialization_init (fill_buffer ext)
                (binding, 0, []) (info_buffers info') of
           Inl e \<Rightarrow> Inl e
         | Inr (binding, bits, buffers') \<Rightarrow>
      (case ForEachSharp_binding (\<lambda>desc. texture_buffer_GetSharp ext desc info')
                TextureBufferSpecialization_init (fill_tex_buffer ext)
                (binding, bits, []) (info_texture_buffers info') of
           Inl e \<Rightarrow> Inl e
         | Inr (binding, bits, tex_buffers') \<Rightarrow>
      (case ForEachSharp_binding (\<lambda>desc. image_GetSharp ext desc info')
                ImageSpecialization_init (fill_image ext)
                (binding, bits, []) (info_images info') of
           Inl e \<Rightarrow> Inl e
         | Inr (binding, bits, images') \<Rightarrow>
      (case ForEachSharp_binding (\<lambda>desc. fmask_GetSharp ext desc info')
                FMaskSpecialization_init fill_fmask
                (binding, bits, []) (info_fmasks info') of
           Inl e \<Rightarrow> Inl e
         | Inr (binding, bits, fmasks') \<Rightarrow>
             Inr \<lparr>info = info',
                  runtime_info = init_tess_runtime_info ext info' runtime_info',
                  fetch_shader_data = fetch_shader_data',
                  vs_attribs = vs_attribs',
                  bitset = bits,
                  buffers = buffers',
                  tex_buffers = tex_buffers',
                  images = images',
                  fmasks = fmasks',
                  samplers =
                    ForEachSharp (\<lambda>desc. sampler_GetSharp ext desc info')
                      SamplerSpecialization_init fill_sampler [] (info_samplers info'),
                  start = start'\<rparr>))))"

subsection \<open>The comparator\<close>

text \<open>
  The two loop shapes of \<^verbatim>\<open>operator==\<close>. \<open>differ\<close> is the element type's \<^verbatim>\<open>!=\<close>.
  The loop runs over the indices of this specialization's list and indexes the other
  one's list with them.

  \<open>compare_loop\<close> is the unconditional loop: \<open>Inr False\<close> is the \<^verbatim>\<open>return false\<close>,
  \<open>Inr True\<close> is leaving the loop at its end.
\<close>

function compare_loop ::
  "('a \<Rightarrow> 'a \<Rightarrow> bool) \<Rightarrow> 'a list \<Rightarrow> 'a list \<Rightarrow> nat \<Rightarrow> error + bool" where
  "compare_loop differ xs ys i =
     (if i < length xs
      then (if i < length ys
            then (if differ (xs ! i) (ys ! i) then Inr False
                  else compare_loop differ xs ys (i + 1))
            else Inl (vector_index_undefined i))
      else Inr True)"
  by pat_completeness auto
termination
  by (relation "measure (\<lambda>(differ, xs, ys, i). length xs - i)") auto

text \<open>
  \<open>gated_loop\<close> is the loop guarded by the other specialization's bitset:
  \<^verbatim>\<open>other.bitset[binding++] && xs[i] != other.xs[i]\<close> reads the bit first and the records
  only when it is set. \<open>Inr None\<close> is the \<^verbatim>\<open>return false\<close>; \<open>Inr (Some binding)\<close> is
  leaving the loop at its end with the counter at \<open>binding\<close>.
\<close>

function gated_loop ::
  "('a \<Rightarrow> 'a \<Rightarrow> bool) \<Rightarrow> 64 word \<Rightarrow> 'a list \<Rightarrow> 'a list \<Rightarrow> nat \<Rightarrow> nat \<Rightarrow> error + nat option"
  where
  "gated_loop differ other_bitset xs ys i binding =
     (if i < length xs
      then (case bitset_index other_bitset binding of
              Inl e \<Rightarrow> Inl e
            | Inr True \<Rightarrow>
                (if i < length ys
                 then (if differ (xs ! i) (ys ! i) then Inr None
                       else gated_loop differ other_bitset xs ys (i + 1) (binding + 1))
                 else Inl (vector_index_undefined i))
            | Inr False \<Rightarrow> gated_loop differ other_bitset xs ys (i + 1) (binding + 1))
      else Inr (Some binding))"
  by pat_completeness auto
termination
  by (relation "measure (\<lambda>(differ, other_bitset, xs, ys, i, binding). length xs - i)") auto

text \<open>
  \<^verbatim>\<open>StageSpecialization::operator==\<close>, with \<open>this\<close> the candidate and \<open>other\<close> the
  cached key. The members \<^verbatim>\<open>start\<close>, \<^verbatim>\<open>runtime_info\<close> and \<^verbatim>\<open>fetch_shader_data\<close> are
  compared by value; every record type but \<^verbatim>\<open>BufferSpecialization\<close> has the defaulted
  member-wise comparison, and \<^verbatim>\<open>!=\<close> on buffers is the negation of its \<^verbatim>\<open>operator==\<close>.
\<close>

definition StageSpecialization_eq ::
  "StageSpecialization \<Rightarrow> StageSpecialization \<Rightarrow> error + bool" where
  "StageSpecialization_eq this other =
     (if start this \<noteq> start other then Inr False
      else if runtime_info this \<noteq> runtime_info other then Inr False
      else if fetch_shader_data this \<noteq> fetch_shader_data other then Inr False
      else case compare_loop (\<noteq>) (vs_attribs this) (vs_attribs other) 0 of
        Inl e \<Rightarrow> Inl e
      | Inr False \<Rightarrow> Inr False
      | Inr True \<Rightarrow>
      (if has_readconst (info this) \<noteq> has_readconst (info other) then Inr False
       else case gated_loop (\<lambda>a b. \<not> BufferSpecialization_eq a b) (bitset other)
                   (buffers this) (buffers other) 0
                   (if has_readconst (info this) then 1 else 0) of
        Inl e \<Rightarrow> Inl e
      | Inr None \<Rightarrow> Inr False
      | Inr (Some binding) \<Rightarrow>
      (case gated_loop (\<noteq>) (bitset other) (tex_buffers this) (tex_buffers other) 0 binding of
        Inl e \<Rightarrow> Inl e
      | Inr None \<Rightarrow> Inr False
      | Inr (Some binding) \<Rightarrow>
      (case gated_loop (\<noteq>) (bitset other) (images this) (images other) 0 binding of
        Inl e \<Rightarrow> Inl e
      | Inr None \<Rightarrow> Inr False
      | Inr (Some binding) \<Rightarrow>
      (case gated_loop (\<noteq>) (bitset other) (fmasks this) (fmasks other) 0 binding of
        Inl e \<Rightarrow> Inl e
      | Inr None \<Rightarrow> Inr False
      | Inr (Some binding) \<Rightarrow>
          compare_loop (\<noteq>) (samplers this) (samplers other) 0)))))"

declare compare_loop.simps [simp del]

declare gated_loop.simps [simp del]

subsection \<open>Shape, capacity and binding positions\<close>

text \<open>
  The vocabulary of the properties below. The binding counter starts at \<open>first_binding\<close>
  (one when the provider declares a read-constant resource); the tracked slots are that
  implicit slot and one per buffer, texture-buffer, image and fmask descriptor.
\<close>

definition first_binding :: "Info \<Rightarrow> nat" where
  "first_binding i = (if has_readconst i then 1 else 0)"

definition tracked_slots :: "Info \<Rightarrow> nat" where
  "tracked_slots i =
     first_binding i + length (info_buffers i) + length (info_texture_buffers i) +
     length (info_images i) + length (info_fmasks i)"

text \<open>
  Two specializations have the same shape when their sequences have the same lengths,
  which is what building them from providers of identical shape gives (for
  \<open>vs_attribs\<close>: from the same fetch-shader layout under the same profile); a
  specialization is within capacity when its tracked slots fit the bitset.
\<close>

definition same_shape :: "StageSpecialization \<Rightarrow> StageSpecialization \<Rightarrow> bool" where
  "same_shape a c \<longleftrightarrow>
     length (vs_attribs a) = length (vs_attribs c) \<and>
     length (buffers a) = length (buffers c) \<and>
     length (tex_buffers a) = length (tex_buffers c) \<and>
     length (images a) = length (images c) \<and>
     length (fmasks a) = length (fmasks c) \<and>
     length (samplers a) = length (samplers c)"

definition within_capacity :: "StageSpecialization \<Rightarrow> bool" where
  "within_capacity a \<longleftrightarrow>
     first_binding (info a) + length (buffers a) + length (tex_buffers a) +
     length (images a) + length (fmasks a) \<le> MaxStageResources"

text \<open>The binding position of the \<open>i\<close>-th record of each tracked sequence.\<close>

definition buffer_binding :: "StageSpecialization \<Rightarrow> nat \<Rightarrow> nat" where
  "buffer_binding a i = first_binding (info a) + i"

definition tex_buffer_binding :: "StageSpecialization \<Rightarrow> nat \<Rightarrow> nat" where
  "tex_buffer_binding a i = first_binding (info a) + length (buffers a) + i"

definition image_binding :: "StageSpecialization \<Rightarrow> nat \<Rightarrow> nat" where
  "image_binding a i =
     first_binding (info a) + length (buffers a) + length (tex_buffers a) + i"

definition fmask_binding :: "StageSpecialization \<Rightarrow> nat \<Rightarrow> nat" where
  "fmask_binding a i =
     first_binding (info a) + length (buffers a) + length (tex_buffers a) +
     length (images a) + i"

text \<open>
  \<open>gated_match differ bits base xs ys\<close>: no record of \<open>xs\<close> whose bit, counted from
  \<open>base\<close>, is set in \<open>bits\<close> differs from the record of \<open>ys\<close> at the same index.
\<close>

definition gated_match ::
  "('a \<Rightarrow> 'a \<Rightarrow> bool) \<Rightarrow> 64 word \<Rightarrow> nat \<Rightarrow> 'a list \<Rightarrow> 'a list \<Rightarrow> bool" where
  "gated_match differ bits base xs ys \<longleftrightarrow>
     (\<forall>k < length xs. bit bits (base + k) \<longrightarrow> \<not> differ (xs ! k) (ys ! k))"

text \<open>The record the constructor appends for one descriptor.\<close>

definition built_record ::
  "('desc \<Rightarrow> 'sharp option) \<Rightarrow> 'spec \<Rightarrow> ('spec \<Rightarrow> 'desc \<Rightarrow> 'sharp \<Rightarrow> 'spec) \<Rightarrow> 'desc \<Rightarrow> 'spec"
  where
  "built_record get init func desc =
     (case get desc of None \<Rightarrow> init | Some sharp \<Rightarrow> func init desc sharp)"

text \<open>The vertex-attribute list the constructor builds.\<close>

definition built_vs_attribs :: "Externals \<Rightarrow> Info \<Rightarrow> Profile \<Rightarrow> VsAttribSpecialization list" where
  "built_vs_attribs ext i p =
     (if stage i = Vertex \<and> ParseFetchShader ext i \<noteq> None \<and>
         \<not> support_legacy_vertex_attributes p
      then map (built_record (\<lambda>desc. attrib_GetSharp ext desc i)
                  VsAttribSpecialization_init (fill_vs_attrib ext))
             (attributes (the (ParseFetchShader ext i)))
      else [])"

subsection \<open>An example provider\<close>

text \<open>
  A vertex stage with a read-constant slot, three buffers, two texture buffers, three
  images, two fmasks and two samplers. The descriptor \<open>0\<close> of every kind does not
  resolve; buffer and image descriptors from \<open>2\<close> on are bound as storage.
\<close>

definition ex_buffer :: "nat \<Rightarrow> nat \<Rightarrow> Buffer" where
  "ex_buffer st sz = \<lparr>GetNumberFmt = 4, DstSelect = 7, GetNumberConversion = 0,
     GetStride = of_nat st, GetSize = of_nat sz\<rparr>"

definition ex_image :: "nat \<Rightarrow> Image" where
  "ex_image m = \<lparr>GetNumberFmt = 4, DstSelect = m, GetNumberConversion = 2,
     GetBoundType = ImageType_other 13, Image.width = 640, Image.height = 480\<rparr>"

definition ex_ext :: Externals where
  "ex_ext = \<lparr>
     ParseFetchShader =
       (\<lambda>i. if stage i = Vertex then Some \<lparr>attributes = [0, 1], fetch_shader_rest = 0\<rparr>
            else None),
     GetNumberClass = (\<lambda>f. if f = 4 then 1 else 0),
     IsInteger = (\<lambda>f. f = 4),
     attrib_GetSharp = (\<lambda>d i. if d = 0 then None else Some (ex_buffer 16 64)),
     buffer_GetSharp = (\<lambda>d i. if d = 0 then None else Some (ex_buffer (16 * d) 1024)),
     buffer_IsStorage = (\<lambda>d sharp. 2 \<le> d),
     texture_buffer_GetSharp = (\<lambda>d i. if d = 0 then None else Some (ex_buffer 4 256)),
     image_GetSharp = (\<lambda>d i. if d = 0 then None else Some (ex_image d)),
     image_IsStorage = (\<lambda>d sharp. 2 \<le> d),
     fmask_GetSharp = (\<lambda>d i. if d = 0 then None else Some (ex_image 0)),
     sampler_GetSharp =
       (\<lambda>d i. if d = 0 then None else Some \<lparr>Sampler.force_unnormalized = True\<rparr>),
     ReadTessConstantBuffer = (\<lambda>i. 5),
     hs_InitFromTessConstants = (\<lambda>h t. h + t),
     vs_InitFromTessConstants = (\<lambda>v t. v + 2 * t)\<rparr>"

definition ex_info :: Info where
  "ex_info = \<lparr>stage = Vertex, l_stage = LogicalStage_other 0, has_readconst = True,
     info_buffers = [1, 0, 2], info_texture_buffers = [1, 0], info_images = [1, 0, 3],
     info_fmasks = [0, 1], info_samplers = [1, 0]\<rparr>"

definition ex_rt :: RuntimeInfo where
  "ex_rt = \<lparr>hs_info = 0, vs_info = 0, runtime_info_rest = 9\<rparr>"

definition ex_profile :: Profile where
  "ex_profile = \<lparr>support_legacy_vertex_attributes = False\<rparr>"

definition ex_spec :: StageSpecialization where
  "ex_spec = \<lparr>info = ex_info, runtime_info = ex_rt,
     fetch_shader_data = Some \<lparr>attributes = [0, 1], fetch_shader_rest = 0\<rparr>,
     vs_attribs = [\<lparr>num_class = 0\<rparr>, \<lparr>num_class = 1\<rparr>],
     bitset = 1370,
     buffers = [\<lparr>stride = 16, BufferSpecialization.is_storage = 0, size' = 1024\<rparr>,
                \<lparr>stride = 0, BufferSpecialization.is_storage = 0, size' = 0\<rparr>,
                \<lparr>stride = 32, BufferSpecialization.is_storage = 1, size' = 0\<rparr>],
     tex_buffers = [\<lparr>TextureBufferSpecialization.is_integer = True,
                     TextureBufferSpecialization.dst_select = 7,
                     TextureBufferSpecialization.num_conversion = 0\<rparr>,
                    \<lparr>TextureBufferSpecialization.is_integer = False,
                     TextureBufferSpecialization.dst_select = 0,
                     TextureBufferSpecialization.num_conversion = 0\<rparr>],
     images = [\<lparr>type = ImageType_other 13, ImageSpecialization.is_integer = True,
                 ImageSpecialization.is_storage = False, ImageSpecialization.dst_select = 0,
                 ImageSpecialization.num_conversion = 2\<rparr>,
               \<lparr>type = Color2D, ImageSpecialization.is_integer = False,
                 ImageSpecialization.is_storage = False, ImageSpecialization.dst_select = 0,
                 ImageSpecialization.num_conversion = 0\<rparr>,
               \<lparr>type = ImageType_other 13, ImageSpecialization.is_integer = True,
                 ImageSpecialization.is_storage = True, ImageSpecialization.dst_select = 3,
                 ImageSpecialization.num_conversion = 2\<rparr>],
     fmasks = [\<lparr>FMaskSpecialization.width = 0, FMaskSpecialization.height = 0\<rparr>,
               \<lparr>FMaskSpecialization.width = 640, FMaskSpecialization.height = 480\<rparr>],
     samplers = [\<lparr>SamplerSpecialization.force_unnormalized = True\<rparr>,
                 \<lparr>SamplerSpecialization.force_unnormalized = False\<rparr>],
     start = 3\<rparr>"

text \<open>
  Variants of the built example: \<open>ex_changed\<close> differs from it in one resolved record of
  each tracked kind, \<open>ex_candidate\<close> in a buffer record whose slot did not resolve,
  \<open>ex_sampler_changed\<close> in a sampler record, \<open>ex_no_readconst\<close> in the read-constant
  flag of its provider.
\<close>

definition ex_changed :: StageSpecialization where
  "ex_changed = ex_spec\<lparr>
     buffers := (buffers ex_spec)
       [0 := \<lparr>stride = 32, BufferSpecialization.is_storage = 0, size' = 1024\<rparr>],
     tex_buffers := (tex_buffers ex_spec)
       [0 := \<lparr>TextureBufferSpecialization.is_integer = True,
              TextureBufferSpecialization.dst_select = 5,
              TextureBufferSpecialization.num_conversion = 0\<rparr>],
     images := (images ex_spec)
       [2 := \<lparr>type = ImageType_other 13, ImageSpecialization.is_integer = True,
              ImageSpecialization.is_storage = True, ImageSpecialization.dst_select = 4,
              ImageSpecialization.num_conversion = 2\<rparr>],
     fmasks := (fmasks ex_spec)
       [1 := \<lparr>FMaskSpecialization.width = 1280, FMaskSpecialization.height = 480\<rparr>]\<rparr>"

definition ex_candidate :: StageSpecialization where
  "ex_candidate = ex_spec\<lparr>buffers := (buffers ex_spec)
       [1 := \<lparr>stride = 16, BufferSpecialization.is_storage = 0, size' = 1024\<rparr>]\<rparr>"

definition ex_sampler_changed :: StageSpecialization where
  "ex_sampler_changed = ex_spec\<lparr>samplers := (samplers ex_spec)
       [0 := \<lparr>SamplerSpecialization.force_unnormalized = False\<rparr>]\<rparr>"

definition ex_no_readconst :: StageSpecialization where
  "ex_no_readconst = ex_spec\<lparr>info := ex_info\<lparr>has_readconst := False\<rparr>\<rparr>"

text \<open>
  Providers with a single image descriptor, bound as storage (\<open>3\<close>) or not (\<open>1\<close>), and
  the same collaborators at a later time, when that descriptor resolves to a hardware
  record with another destination component mapping.
\<close>

definition ex_info_storage :: Info where
  "ex_info_storage = ex_info\<lparr>info_images := [3]\<rparr>"

definition ex_info_sampled :: Info where
  "ex_info_sampled = ex_info\<lparr>info_images := [1]\<rparr>"

definition ex_ext_storage :: Externals where
  "ex_ext_storage =
     ex_ext\<lparr>image_GetSharp := (image_GetSharp ex_ext)(3 := \<lambda>_. Some (ex_image 9))\<rparr>"

definition ex_ext_sampled :: Externals where
  "ex_ext_sampled =
     ex_ext\<lparr>image_GetSharp :=
              (image_GetSharp ex_ext)(1 := \<lambda>_. Some ((ex_image 1)\<lparr>DstSelect := 9\<rparr>))\<rparr>"

text \<open>A profile that supports legacy vertex attributes, and what the example builds to under it.\<close>

definition ex_profile_legacy :: Profile where
  "ex_profile_legacy = \<lparr>support_legacy_vertex_attributes = True\<rparr>"

definition ex_spec_legacy :: StageSpecialization where
  "ex_spec_legacy = ex_spec\<lparr>vs_attribs := []\<rparr>"

section \<open>Equality of buffer records\<close>

lemma one_bit_word_cases: "(x :: 1 word) = 0 \<or> x = 1"
proof -
  have "unat x < 2" using unsigned_less [of x, where 'a = nat] by simp
  then have "unat x = 0 \<or> unat x = 1" by arith
  then show ?thesis by (auto simp: word_unat_eq_iff)
qed

lemma BufferSpecialization_eq_iff:
  "BufferSpecialization_eq a b \<longleftrightarrow>
     stride a = stride b \<and>
     BufferSpecialization.is_storage a = BufferSpecialization.is_storage b"
  using one_bit_word_cases [of "BufferSpecialization.is_storage a"]
  by (auto simp: BufferSpecialization_eq_def)

section \<open>The comparator, loop by loop\<close>

lemma compare_loop_char:
  "length xs \<le> length ys \<Longrightarrow>
   compare_loop differ xs ys i = Inr (\<forall>k. i \<le> k \<and> k < length xs \<longrightarrow> \<not> differ (xs ! k) (ys ! k))"
proof (induction differ xs ys i rule: compare_loop.induct)
  case (1 differ xs ys i)
  show ?case
  proof (cases "i < length xs")
    case False
    then show ?thesis by (subst compare_loop.simps) auto
  next
    case True
    note lt = this
    show ?thesis
    proof (cases "differ (xs ! i) (ys ! i)")
      case True
      with lt 1(2) show ?thesis by (subst compare_loop.simps) auto
    next
      case False
      have "compare_loop differ xs ys i = compare_loop differ xs ys (i + 1)"
        using lt False 1(2) by (subst compare_loop.simps) simp
      also have "\<dots> = Inr (\<forall>k. i + 1 \<le> k \<and> k < length xs \<longrightarrow> \<not> differ (xs ! k) (ys ! k))"
        using 1(1) lt False 1(2) by simp
      also have "(\<forall>k. i + 1 \<le> k \<and> k < length xs \<longrightarrow> \<not> differ (xs ! k) (ys ! k)) =
                 (\<forall>k. i \<le> k \<and> k < length xs \<longrightarrow> \<not> differ (xs ! k) (ys ! k))"
        using False by (metis Suc_eq_plus1 Suc_leI le_neq_implies_less le_add1 le_trans)
      finally show ?thesis .
    qed
  qed
qed

lemma gated_loop_char:
  "length xs \<le> length ys \<Longrightarrow> binding + (length xs - i) \<le> MaxStageResources \<Longrightarrow>
   gated_loop differ bits xs ys i binding =
     Inr (if \<forall>k. i \<le> k \<and> k < length xs \<longrightarrow>
               bit bits (binding + (k - i)) \<longrightarrow> \<not> differ (xs ! k) (ys ! k)
          then Some (binding + (length xs - i)) else None)"
proof (induction differ bits xs ys i binding rule: gated_loop.induct)
  case (1 differ bits xs ys i binding)
  let ?P = "\<lambda>i binding. \<forall>k. i \<le> k \<and> k < length xs \<longrightarrow>
               bit bits (binding + (k - i)) \<longrightarrow> \<not> differ (xs ! k) (ys ! k)"
  show ?case
  proof (cases "i < length xs")
    case False
    then show ?thesis by (subst gated_loop.simps) simp
  next
    case True
    note lt = this
    then have inr: "binding < MaxStageResources" using 1(4) by arith
    have cap: "binding + 1 + (length xs - (i + 1)) \<le> MaxStageResources" using lt 1(4) by arith
    have bi: "bitset_index bits binding = Inr (bit bits binding)"
      using inr by (simp add: bitset_index_def)
    have step: "?P i binding \<longleftrightarrow> (bit bits binding \<longrightarrow> \<not> differ (xs ! i) (ys ! i)) \<and> ?P (i + 1) (binding + 1)"
    proof -
      have "\<And>k. i \<le> k \<longleftrightarrow> k = i \<or> i + 1 \<le> k" by arith
      moreover have "\<And>k. i + 1 \<le> k \<Longrightarrow> binding + 1 + (k - (i + 1)) = binding + (k - i)" by arith
      ultimately show ?thesis by (auto simp: lt)
    qed
    show ?thesis
    proof (cases "bit bits binding \<and> differ (xs ! i) (ys ! i)")
      case True
      then have "gated_loop differ bits xs ys i binding = Inr None"
        using lt inr 1(3) by (subst gated_loop.simps) (simp add: bitset_index_def)
      moreover have "\<not> ?P i binding" using True step by blast
      ultimately show ?thesis by simp
    next
      case False
      have "gated_loop differ bits xs ys i binding = gated_loop differ bits xs ys (i + 1) (binding + 1)"
        using lt inr 1(3) False by (subst gated_loop.simps) (auto simp: bitset_index_def split: bool.splits)
      also have "\<dots> = Inr (if ?P (i + 1) (binding + 1) then Some (binding + 1 + (length xs - (i + 1))) else None)"
      proof (cases "bit bits binding")
        case True
        then have b: "bit bits binding = True" by simp
        have nd: "\<not> differ (xs ! i) (ys ! i)" using False True by simp
        have ly: "i < length ys" using lt 1(3) by simp
        show ?thesis by (rule 1(1) [OF lt bi b ly nd 1(3) cap])
      next
        case F: False
        then have b: "bit bits binding = False" by simp
        show ?thesis by (rule 1(2) [OF lt bi b 1(3) cap])
      qed
      also have "binding + 1 + (length xs - (i + 1)) = binding + (length xs - i)" using lt by arith
      also have "?P (i + 1) (binding + 1) = ?P i binding" using step False by blast
      finally show ?thesis .
    qed
  qed
qed

lemma compare_loop_neq:
  assumes "length xs = length ys"
  shows "compare_loop (\<noteq>) xs ys 0 = Inr (xs = ys)"
proof -
  have "compare_loop (\<noteq>) xs ys 0 = Inr (\<forall>k. 0 \<le> k \<and> k < length xs \<longrightarrow> \<not> xs ! k \<noteq> ys ! k)"
    using assms by (intro compare_loop_char) simp
  also have "(\<forall>k. 0 \<le> k \<and> k < length xs \<longrightarrow> \<not> xs ! k \<noteq> ys ! k) \<longleftrightarrow> xs = ys"
    using assms by (auto simp: list_eq_iff_nth_eq)
  finally show ?thesis .
qed

lemma gated_loop_match:
  assumes "length xs = length ys" and "base + length xs \<le> MaxStageResources"
  shows "gated_loop differ bits xs ys 0 base =
           Inr (if gated_match differ bits base xs ys then Some (base + length xs) else None)"
  using gated_loop_char [of xs ys base 0 differ bits] assms
  by (simp add: gated_match_def)

lemma StageSpecialization_eq_char:
  assumes shape: "same_shape a c" and cap: "within_capacity a"
  shows "StageSpecialization_eq a c =
    Inr (start a = start c \<and> runtime_info a = runtime_info c \<and>
         fetch_shader_data a = fetch_shader_data c \<and> vs_attribs a = vs_attribs c \<and>
         has_readconst (info a) = has_readconst (info c) \<and>
         gated_match (\<lambda>x y. \<not> BufferSpecialization_eq x y) (bitset c)
           (buffer_binding a 0) (buffers a) (buffers c) \<and>
         gated_match (\<noteq>) (bitset c) (tex_buffer_binding a 0) (tex_buffers a) (tex_buffers c) \<and>
         gated_match (\<noteq>) (bitset c) (image_binding a 0) (images a) (images c) \<and>
         gated_match (\<noteq>) (bitset c) (fmask_binding a 0) (fmasks a) (fmasks c) \<and>
         samplers a = samplers c)"
proof -
  let ?b0 = "first_binding (info a)"
  let ?b1 = "?b0 + length (buffers a)"
  let ?b2 = "?b1 + length (tex_buffers a)"
  let ?b3 = "?b2 + length (images a)"
  define V where "V \<longleftrightarrow> vs_attribs a = vs_attribs c"
  define G1 where "G1 \<longleftrightarrow> gated_match (\<lambda>x y. \<not> BufferSpecialization_eq x y) (bitset c) ?b0
    (buffers a) (buffers c)"
  define G2 where "G2 \<longleftrightarrow> gated_match (\<noteq>) (bitset c) ?b1 (tex_buffers a) (tex_buffers c)"
  define G3 where "G3 \<longleftrightarrow> gated_match (\<noteq>) (bitset c) ?b2 (images a) (images c)"
  define G4 where "G4 \<longleftrightarrow> gated_match (\<noteq>) (bitset c) ?b3 (fmasks a) (fmasks c)"
  define S where "S \<longleftrightarrow> samplers a = samplers c"
  have L0: "compare_loop (\<noteq>) (vs_attribs a) (vs_attribs c) 0 = Inr V"
    unfolding V_def using shape by (intro compare_loop_neq) (simp add: same_shape_def)
  have L1: "gated_loop (\<lambda>x y. \<not> BufferSpecialization_eq x y) (bitset c) (buffers a) (buffers c) 0 ?b0 =
      Inr (if G1 then Some ?b1 else None)"
    unfolding G1_def using shape cap
    by (intro gated_loop_match) (simp_all add: same_shape_def within_capacity_def)
  have L2: "gated_loop (\<noteq>) (bitset c) (tex_buffers a) (tex_buffers c) 0 ?b1 =
      Inr (if G2 then Some ?b2 else None)"
    unfolding G2_def using shape cap
    by (intro gated_loop_match) (simp_all add: same_shape_def within_capacity_def)
  have L3: "gated_loop (\<noteq>) (bitset c) (images a) (images c) 0 ?b2 =
      Inr (if G3 then Some ?b3 else None)"
    unfolding G3_def using shape cap
    by (intro gated_loop_match) (simp_all add: same_shape_def within_capacity_def)
  have L4: "gated_loop (\<noteq>) (bitset c) (fmasks a) (fmasks c) 0 ?b3 =
      Inr (if G4 then Some (?b3 + length (fmasks a)) else None)"
    unfolding G4_def using shape cap
    by (intro gated_loop_match) (simp_all add: same_shape_def within_capacity_def)
  have L5: "compare_loop (\<noteq>) (samplers a) (samplers c) 0 = Inr S"
    unfolding S_def using shape by (intro compare_loop_neq) (simp add: same_shape_def)
  have fb: "(if has_readconst (info a) then 1 else 0) = ?b0"
    by (simp add: first_binding_def)
  have "StageSpecialization_eq a c =
    Inr (start a = start c \<and> runtime_info a = runtime_info c \<and>
         fetch_shader_data a = fetch_shader_data c \<and> V \<and>
         has_readconst (info a) = has_readconst (info c) \<and> G1 \<and> G2 \<and> G3 \<and> G4 \<and> S)"
    unfolding StageSpecialization_eq_def fb L0
    by (cases V; cases G1; cases G2; cases G3; cases G4) (simp_all add: L1 L2 L3 L4 L5)
  then show ?thesis
    by (simp add: V_def G1_def G2_def G3_def G4_def S_def buffer_binding_def
          tex_buffer_binding_def image_binding_def fmask_binding_def)
qed

section \<open>The constructor, loop by loop\<close>

lemma ForEachSharp_eq:
  "ForEachSharp get init func spec_list desc_list =
     spec_list @ map (built_record get init func) desc_list"
  by (induction desc_list arbitrary: spec_list)
     (auto simp: built_record_def split: option.splits)

lemma bit_bitset_set:
  "bitset_set bits pos = Inr bits' \<Longrightarrow> bit bits' n \<longleftrightarrow> bit bits n \<or> n = pos"
  by (auto simp: bitset_set_def MaxStageResources_def bit_set_bit_iff split: if_splits)

lemma ForEachSharp_binding_Inr:
  "ForEachSharp_binding get init func (binding, bits, spec_list) desc_list =
     Inr (binding', bits', spec_list') \<Longrightarrow>
   binding' = binding + length desc_list \<and>
   spec_list' = spec_list @ map (built_record get init func) desc_list \<and>
   (\<forall>n. bit bits' n \<longleftrightarrow>
      bit bits n \<or> (\<exists>i < length desc_list. n = binding + i \<and> get (desc_list ! i) \<noteq> None))"
proof (induction desc_list arbitrary: binding bits spec_list)
  case Nil
  then show ?case by simp
next
  case (Cons desc desc_list)
  show ?case
  proof (cases "get desc")
    case None
    with Cons.prems have run:
      "ForEachSharp_binding get init func (binding + 1, bits, spec_list @ [init]) desc_list =
         Inr (binding', bits', spec_list')" by simp
    from Cons.IH [OF run] None show ?thesis
      by (auto simp: built_record_def Ex_less_Suc2)
  next
    case (Some sharp)
    with Cons.prems obtain bits1 where
      set: "bitset_set bits binding = Inr bits1" and
      run: "ForEachSharp_binding get init func
              (binding + 1, bits1, spec_list @ [func init desc sharp]) desc_list =
            Inr (binding', bits', spec_list')"
      by (auto split: sum.splits)
    from Cons.IH [OF run] Some bit_bitset_set [OF set] show ?thesis
      by (auto simp: built_record_def Ex_less_Suc2)
  qed
qed

lemma ForEachSharp_binding_total:
  "binding + length desc_list \<le> MaxStageResources \<Longrightarrow>
   \<exists>bits'. ForEachSharp_binding get init func (binding, bits, spec_list) desc_list =
     Inr (binding + length desc_list, bits',
          spec_list @ map (built_record get init func) desc_list)"
proof (induction desc_list arbitrary: binding bits spec_list)
  case Nil
  then show ?case by simp
next
  case (Cons desc desc_list)
  then have le: "binding + 1 + length desc_list \<le> MaxStageResources" by simp
  show ?case
  proof (cases "get desc")
    case None
    with Cons.IH [OF le, of bits "spec_list @ [init]"] show ?thesis
      by (auto simp: built_record_def)
  next
    case (Some sharp)
    have "bitset_set bits binding = Inr (set_bit binding bits)"
      using Cons.prems by (simp add: bitset_set_def)
    with Some Cons.IH [OF le, of "set_bit binding bits" "spec_list @ [func init desc sharp]"]
    show ?thesis by (auto simp: built_record_def)
  qed
qed

lemma ctor_Inr:
  assumes "StageSpecialization_ctor ext i rt p st = Inr s"
  shows "info s = i" and "start s = st"
    and "runtime_info s = init_tess_runtime_info ext i rt"
    and "fetch_shader_data s = ParseFetchShader ext i"
    and "vs_attribs s = built_vs_attribs ext i p"
    and "buffers s = map (built_record (\<lambda>desc. buffer_GetSharp ext desc i)
                            BufferSpecialization_init (fill_buffer ext)) (info_buffers i)"
    and "tex_buffers s = map (built_record (\<lambda>desc. texture_buffer_GetSharp ext desc i)
                            TextureBufferSpecialization_init (fill_tex_buffer ext))
                           (info_texture_buffers i)"
    and "images s = map (built_record (\<lambda>desc. image_GetSharp ext desc i)
                            ImageSpecialization_init (fill_image ext)) (info_images i)"
    and "fmasks s = map (built_record (\<lambda>desc. fmask_GetSharp ext desc i)
                            FMaskSpecialization_init fill_fmask) (info_fmasks i)"
    and "samplers s = map (built_record (\<lambda>desc. sampler_GetSharp ext desc i)
                            SamplerSpecialization_init fill_sampler) (info_samplers i)"
    and "bit (bitset s) n \<longleftrightarrow>
           (\<exists>k < length (info_buffers i). n = first_binding i + k \<and>
              buffer_GetSharp ext (info_buffers i ! k) i \<noteq> None) \<or>
           (\<exists>k < length (info_texture_buffers i).
              n = first_binding i + length (info_buffers i) + k \<and>
              texture_buffer_GetSharp ext (info_texture_buffers i ! k) i \<noteq> None) \<or>
           (\<exists>k < length (info_images i).
              n = first_binding i + length (info_buffers i) +
                  length (info_texture_buffers i) + k \<and>
              image_GetSharp ext (info_images i ! k) i \<noteq> None) \<or>
           (\<exists>k < length (info_fmasks i).
              n = first_binding i + length (info_buffers i) +
                  length (info_texture_buffers i) + length (info_images i) + k \<and>
              fmask_GetSharp ext (info_fmasks i ! k) i \<noteq> None)"
proof -
  let ?b0 = "if has_readconst i then 1 else 0 :: nat"
  let ?r1 = "ForEachSharp_binding (\<lambda>desc. buffer_GetSharp ext desc i)
           BufferSpecialization_init (fill_buffer ext) (?b0, 0, []) (info_buffers i)"
  from assms obtain b1 bits1 l1 where r1: "?r1 = Inr (b1, bits1, l1)"
    unfolding StageSpecialization_ctor_def Let_def
    by (cases ?r1) auto
  let ?r2 = "ForEachSharp_binding (\<lambda>desc. texture_buffer_GetSharp ext desc i)
           TextureBufferSpecialization_init (fill_tex_buffer ext) (b1, bits1, [])
           (info_texture_buffers i)"
  from assms r1 obtain b2 bits2 l2 where r2: "?r2 = Inr (b2, bits2, l2)"
    unfolding StageSpecialization_ctor_def Let_def
    by (cases ?r2) auto
  let ?r3 = "ForEachSharp_binding (\<lambda>desc. image_GetSharp ext desc i)
           ImageSpecialization_init (fill_image ext) (b2, bits2, []) (info_images i)"
  from assms r1 r2 obtain b3 bits3 l3 where r3: "?r3 = Inr (b3, bits3, l3)"
    unfolding StageSpecialization_ctor_def Let_def
    by (cases ?r3) auto
  let ?r4 = "ForEachSharp_binding (\<lambda>desc. fmask_GetSharp ext desc i)
           FMaskSpecialization_init fill_fmask (b3, bits3, []) (info_fmasks i)"
  from assms r1 r2 r3 obtain b4 bits4 l4 where r4: "?r4 = Inr (b4, bits4, l4)"
    unfolding StageSpecialization_ctor_def Let_def
    by (cases ?r4) auto
  have s: "s = \<lparr>info = i, runtime_info = init_tess_runtime_info ext i rt,
            fetch_shader_data = ParseFetchShader ext i,
            vs_attribs = built_vs_attribs ext i p,
            bitset = bits4, buffers = l1, tex_buffers = l2, images = l3, fmasks = l4,
            samplers = ForEachSharp (\<lambda>desc. sampler_GetSharp ext desc i)
                         SamplerSpecialization_init fill_sampler [] (info_samplers i),
            start = st\<rparr>"
    using assms r1 r2 r3 r4
    unfolding StageSpecialization_ctor_def Let_def built_vs_attribs_def ForEachSharp_eq
    by auto
  note d1 = ForEachSharp_binding_Inr [OF r1]
  note d2 = ForEachSharp_binding_Inr [OF r2]
  note d3 = ForEachSharp_binding_Inr [OF r3]
  note d4 = ForEachSharp_binding_Inr [OF r4]
  show "info s = i" "start s = st" "runtime_info s = init_tess_runtime_info ext i rt"
    "fetch_shader_data s = ParseFetchShader ext i" "vs_attribs s = built_vs_attribs ext i p"
    by (simp_all add: s)
  show "buffers s = map (built_record (\<lambda>desc. buffer_GetSharp ext desc i)
                            BufferSpecialization_init (fill_buffer ext)) (info_buffers i)"
    using d1 by (simp add: s)
  show "tex_buffers s = map (built_record (\<lambda>desc. texture_buffer_GetSharp ext desc i)
                            TextureBufferSpecialization_init (fill_tex_buffer ext))
                           (info_texture_buffers i)"
    using d2 by (simp add: s)
  show "images s = map (built_record (\<lambda>desc. image_GetSharp ext desc i)
                            ImageSpecialization_init (fill_image ext)) (info_images i)"
    using d3 by (simp add: s)
  show "fmasks s = map (built_record (\<lambda>desc. fmask_GetSharp ext desc i)
                            FMaskSpecialization_init fill_fmask) (info_fmasks i)"
    using d4 by (simp add: s)
  show "samplers s = map (built_record (\<lambda>desc. sampler_GetSharp ext desc i)
                            SamplerSpecialization_init fill_sampler) (info_samplers i)"
    by (simp add: s ForEachSharp_eq)
  have b1: "b1 = first_binding i + length (info_buffers i)"
    using d1 by (simp add: first_binding_def)
  have b2: "b2 = first_binding i + length (info_buffers i) + length (info_texture_buffers i)"
    using d2 b1 by simp
  have b3: "b3 = first_binding i + length (info_buffers i) + length (info_texture_buffers i) +
                 length (info_images i)"
    using d3 b2 by simp
  have e1: "bit bits1 n \<longleftrightarrow> (\<exists>k < length (info_buffers i). n = first_binding i + k \<and>
              buffer_GetSharp ext (info_buffers i ! k) i \<noteq> None)"
    using d1 by (simp add: first_binding_def)
  have e2: "bit bits2 n \<longleftrightarrow> bit bits1 n \<or> (\<exists>k < length (info_texture_buffers i).
              n = first_binding i + length (info_buffers i) + k \<and>
              texture_buffer_GetSharp ext (info_texture_buffers i ! k) i \<noteq> None)"
    using d2 unfolding b1 by blast
  have e3: "bit bits3 n \<longleftrightarrow> bit bits2 n \<or> (\<exists>k < length (info_images i).
              n = first_binding i + length (info_buffers i) +
                  length (info_texture_buffers i) + k \<and>
              image_GetSharp ext (info_images i ! k) i \<noteq> None)"
    using d3 unfolding b2 by blast
  have e4: "bit bits4 n \<longleftrightarrow> bit bits3 n \<or> (\<exists>k < length (info_fmasks i).
              n = first_binding i + length (info_buffers i) +
                  length (info_texture_buffers i) + length (info_images i) + k \<and>
              fmask_GetSharp ext (info_fmasks i ! k) i \<noteq> None)"
    using d4 unfolding b3 by blast
  show "bit (bitset s) n \<longleftrightarrow>
           (\<exists>k < length (info_buffers i). n = first_binding i + k \<and>
              buffer_GetSharp ext (info_buffers i ! k) i \<noteq> None) \<or>
           (\<exists>k < length (info_texture_buffers i).
              n = first_binding i + length (info_buffers i) + k \<and>
              texture_buffer_GetSharp ext (info_texture_buffers i ! k) i \<noteq> None) \<or>
           (\<exists>k < length (info_images i).
              n = first_binding i + length (info_buffers i) +
                  length (info_texture_buffers i) + k \<and>
              image_GetSharp ext (info_images i ! k) i \<noteq> None) \<or>
           (\<exists>k < length (info_fmasks i).
              n = first_binding i + length (info_buffers i) +
                  length (info_texture_buffers i) + length (info_images i) + k \<and>
              fmask_GetSharp ext (info_fmasks i ! k) i \<noteq> None)"
    unfolding s using e1 e2 e3 e4 by simp
qed

lemma ctor_total:
  assumes "tracked_slots i \<le> MaxStageResources"
  shows "\<exists>s. StageSpecialization_ctor ext i rt p st = Inr s"
proof -
  let ?b0 = "if has_readconst i then 1 else 0 :: nat"
  let ?b1 = "?b0 + length (info_buffers i)"
  let ?b2 = "?b1 + length (info_texture_buffers i)"
  let ?b3 = "?b2 + length (info_images i)"
  from assms have c: "?b3 + length (info_fmasks i) \<le> MaxStageResources"
    by (simp add: tracked_slots_def first_binding_def)
  from c have "?b1 \<le> MaxStageResources" by simp
  from ForEachSharp_binding_total [OF this, of "\<lambda>desc. buffer_GetSharp ext desc i"
      BufferSpecialization_init "fill_buffer ext" 0 "[]"] obtain bits1 where
    r1: "ForEachSharp_binding (\<lambda>desc. buffer_GetSharp ext desc i)
           BufferSpecialization_init (fill_buffer ext) (?b0, 0, []) (info_buffers i) =
         Inr (?b1, bits1, [] @ map (built_record (\<lambda>desc. buffer_GetSharp ext desc i)
                BufferSpecialization_init (fill_buffer ext)) (info_buffers i))"
    by blast
  from c have "?b2 \<le> MaxStageResources" by simp
  from ForEachSharp_binding_total [OF this, of "\<lambda>desc. texture_buffer_GetSharp ext desc i"
      TextureBufferSpecialization_init "fill_tex_buffer ext" bits1 "[]"] obtain bits2 where
    r2: "ForEachSharp_binding (\<lambda>desc. texture_buffer_GetSharp ext desc i)
           TextureBufferSpecialization_init (fill_tex_buffer ext) (?b1, bits1, [])
           (info_texture_buffers i) =
         Inr (?b2, bits2, [] @ map (built_record (\<lambda>desc. texture_buffer_GetSharp ext desc i)
                TextureBufferSpecialization_init (fill_tex_buffer ext))
                (info_texture_buffers i))"
    by blast
  from c have "?b3 \<le> MaxStageResources" by simp
  from ForEachSharp_binding_total [OF this, of "\<lambda>desc. image_GetSharp ext desc i"
      ImageSpecialization_init "fill_image ext" bits2 "[]"] obtain bits3 where
    r3: "ForEachSharp_binding (\<lambda>desc. image_GetSharp ext desc i)
           ImageSpecialization_init (fill_image ext) (?b2, bits2, []) (info_images i) =
         Inr (?b3, bits3, [] @ map (built_record (\<lambda>desc. image_GetSharp ext desc i)
                ImageSpecialization_init (fill_image ext)) (info_images i))"
    by blast
  from ForEachSharp_binding_total [OF c, of "\<lambda>desc. fmask_GetSharp ext desc i"
      FMaskSpecialization_init fill_fmask bits3 "[]"] obtain bits4 where
    r4: "ForEachSharp_binding (\<lambda>desc. fmask_GetSharp ext desc i)
           FMaskSpecialization_init fill_fmask (?b3, bits3, []) (info_fmasks i) =
         Inr (?b3 + length (info_fmasks i), bits4,
              [] @ map (built_record (\<lambda>desc. fmask_GetSharp ext desc i)
                FMaskSpecialization_init fill_fmask) (info_fmasks i))"
    by blast
  show ?thesis
    unfolding StageSpecialization_ctor_def Let_def
    by (simp add: r1 r2 r3 r4)
qed

section \<open>The example provider, built\<close>

lemma ex_spec_built:
  "StageSpecialization_ctor ex_ext ex_info ex_rt ex_profile 3 = Inr ex_spec"
  by code_simp

section \<open>Properties of the specialization key\<close>

text \<open>
  C2. For all buffer records \<open>a\<close> and \<open>b\<close>, \<^verbatim>\<open>a == b\<close> holds if and only if their
  strides are equal and their storage flags are equal; the \<open>size'\<close> field never affects
  the result, whatever values it takes on either side.
\<close>

theorem buffer_eq_ignores_size:
  "(BufferSpecialization_eq a b \<longleftrightarrow>
      stride a = stride b \<and>
      BufferSpecialization.is_storage a = BufferSpecialization.is_storage b) \<and>
   BufferSpecialization_eq (a\<lparr>size' := s\<rparr>) (b\<lparr>size' := t\<rparr>) = BufferSpecialization_eq a b"
  by (simp add: BufferSpecialization_eq_iff)

text \<open>A run of C2: records that differ only in \<open>size'\<close> are equal, records that differ in \<open>stride\<close> are not.\<close>

theorem buffer_eq_ignores_size_witness:
  "BufferSpecialization_eq
     \<lparr>stride = 16, BufferSpecialization.is_storage = 0, size' = 1024\<rparr>
     \<lparr>stride = 16, BufferSpecialization.is_storage = 0, size' = 4\<rparr> \<and>
   \<not> BufferSpecialization_eq
     \<lparr>stride = 16, BufferSpecialization.is_storage = 0, size' = 1024\<rparr>
     \<lparr>stride = 32, BufferSpecialization.is_storage = 0, size' = 1024\<rparr>"
  using buffer_eq_ignores_size
    [of "\<lparr>stride = 16, BufferSpecialization.is_storage = 0, size' = 1024\<rparr>"
        "\<lparr>stride = 16, BufferSpecialization.is_storage = 0, size' = 4\<rparr>"]
    buffer_eq_ignores_size
    [of "\<lparr>stride = 16, BufferSpecialization.is_storage = 0, size' = 1024\<rparr>"
        "\<lparr>stride = 32, BufferSpecialization.is_storage = 0, size' = 1024\<rparr>"]
  by simp

text \<open>
  C10. For a buffer descriptor whose hardware record resolves, the built record's
  \<open>size'\<close> stays at its default \<open>0\<close> when the descriptor is bound as storage, and is
  the hardware record's size only when it is not.
\<close>

theorem storage_buffer_size_stays_zero:
  assumes "StageSpecialization_ctor ext i rt p st = Inr s"
      and "k < length (info_buffers i)"
      and "buffer_GetSharp ext (info_buffers i ! k) i = Some sharp"
  shows "(buffer_IsStorage ext (info_buffers i ! k) sharp \<longrightarrow>
            BufferSpecialization.is_storage (buffers s ! k) = 1 \<and>
            size' (buffers s ! k) = 0) \<and>
         (\<not> buffer_IsStorage ext (info_buffers i ! k) sharp \<longrightarrow>
            BufferSpecialization.is_storage (buffers s ! k) = 0 \<and>
            size' (buffers s ! k) = GetSize sharp)"
  using assms(2,3)
  by (simp add: ctor_Inr(6) [OF assms(1)] built_record_def fill_buffer_def
        BufferSpecialization_init_def)

text \<open>A run of C10 on the example provider: its third buffer is storage, its first is not.\<close>

theorem storage_buffer_size_stays_zero_witness:
  "StageSpecialization_ctor ex_ext ex_info ex_rt ex_profile 3 = Inr ex_spec \<and>
   (2::nat) < length (info_buffers ex_info) \<and>
   buffer_GetSharp ex_ext (info_buffers ex_info ! 2) ex_info = Some (ex_buffer 32 1024) \<and>
   buffer_IsStorage ex_ext (info_buffers ex_info ! 2) (ex_buffer 32 1024) \<and>
   GetSize (ex_buffer 32 1024) = 1024 \<and>
   size' (buffers ex_spec ! 2) = 0 \<and>
   buffer_GetSharp ex_ext (info_buffers ex_info ! 0) ex_info = Some (ex_buffer 16 1024) \<and>
   \<not> buffer_IsStorage ex_ext (info_buffers ex_info ! 0) (ex_buffer 16 1024) \<and>
   size' (buffers ex_spec ! 0) = 1024"
proof -
  have l: "(2::nat) < length (info_buffers ex_info)" "(0::nat) < length (info_buffers ex_info)"
    by (simp_all add: ex_info_def)
  have g2: "buffer_GetSharp ex_ext (info_buffers ex_info ! 2) ex_info = Some (ex_buffer 32 1024)"
    by (simp add: ex_ext_def ex_info_def)
  have g0: "buffer_GetSharp ex_ext (info_buffers ex_info ! 0) ex_info = Some (ex_buffer 16 1024)"
    by (simp add: ex_ext_def ex_info_def)
  have s2: "buffer_IsStorage ex_ext (info_buffers ex_info ! 2) (ex_buffer 32 1024)"
    by (simp add: ex_ext_def ex_info_def)
  have s0: "\<not> buffer_IsStorage ex_ext (info_buffers ex_info ! 0) (ex_buffer 16 1024)"
    by (simp add: ex_ext_def ex_info_def)
  have sz: "GetSize (ex_buffer 32 1024) = 1024" "GetSize (ex_buffer 16 1024) = 1024"
    by (simp_all add: ex_buffer_def)
  show ?thesis
    using storage_buffer_size_stays_zero [OF ex_spec_built l(1) g2]
      storage_buffer_size_stays_zero [OF ex_spec_built l(2) g0]
      ex_spec_built l g2 g0 s2 s0 sz
    by simp
qed

text \<open>
  C9. When the tracked slots of the provider (one for the read-constant resource if
  declared, plus the buffer, texture-buffer, image and fmask descriptors) do not exceed
  the capacity of the bitset, no \<^verbatim>\<open>bitset.set\<close> of the constructor is out of range: the
  constructor returns a specialization, and every bit it has set lies below the number
  of tracked slots.
\<close>

theorem builder_total_within_capacity:
  assumes "tracked_slots i \<le> MaxStageResources"
  shows "\<exists>s. StageSpecialization_ctor ext i rt p st = Inr s \<and>
             (\<forall>n. bit (bitset s) n \<longrightarrow> n < tracked_slots i)"
proof -
  from ctor_total [OF assms] obtain s where
    s: "StageSpecialization_ctor ext i rt p st = Inr s" by blast
  have "n < tracked_slots i" if "bit (bitset s) n" for n
    using that unfolding ctor_Inr(11) [OF s] tracked_slots_def by auto
  with s show ?thesis by blast
qed

text \<open>A run of C9 on the example provider, which has eleven tracked slots.\<close>

theorem builder_total_within_capacity_witness:
  "tracked_slots ex_info \<le> MaxStageResources \<and>
   (\<exists>s. StageSpecialization_ctor ex_ext ex_info ex_rt ex_profile 3 = Inr s \<and>
        (\<forall>n. bit (bitset s) n \<longrightarrow> n < tracked_slots ex_info))"
proof -
  have h: "tracked_slots ex_info \<le> MaxStageResources"
    by (simp add: tracked_slots_def first_binding_def ex_info_def MaxStageResources_def)
  show ?thesis
    using h builder_total_within_capacity [OF h, of ex_ext ex_rt ex_profile 3] by simp
qed

subsection \<open>Built specializations\<close>

lemma ctor_lengths:
  assumes "StageSpecialization_ctor ext i rt p st = Inr s"
  shows "length (buffers s) = length (info_buffers i)"
    and "length (tex_buffers s) = length (info_texture_buffers i)"
    and "length (images s) = length (info_images i)"
    and "length (fmasks s) = length (info_fmasks i)"
    and "length (samplers s) = length (info_samplers i)"
  by (simp_all add: ctor_Inr [OF assms])

lemma ctor_within_capacity:
  assumes "StageSpecialization_ctor ext i rt p st = Inr s"
    and "tracked_slots i \<le> MaxStageResources"
  shows "within_capacity s"
  using assms(2)
  by (simp add: within_capacity_def tracked_slots_def ctor_lengths [OF assms(1)]
        ctor_Inr(1) [OF assms(1)])

lemma gated_match_refl:
  "(\<And>x. \<not> differ x x) \<Longrightarrow> gated_match differ bits base xs xs"
  by (simp add: gated_match_def)

lemma StageSpecialization_eq_refl:
  assumes "within_capacity a"
  shows "StageSpecialization_eq a a = Inr True"
proof -
  have "same_shape a a" by (simp add: same_shape_def)
  from StageSpecialization_eq_char [OF this assms] show ?thesis
    by (simp add: gated_match_refl BufferSpecialization_eq_iff)
qed

text \<open>
  C6. During construction the binding counter starts at 0, is advanced by one for the
  implicit read-constant slot when the provider declares one, and then by exactly one
  per descriptor, resolved or not, over the buffers, the texture buffers, the images and
  the fmasks in this order: each loop leaves the counter advanced by the number of its
  descriptors. For every such descriptor, the bit of the built bitset at the
  descriptor's binding index is set if and only if its hardware record resolved.
\<close>

theorem binding_counter_tracks_resolution:
  assumes "StageSpecialization_ctor ext i rt p st = Inr s"
  shows
    "(\<forall>binding bits spec_list desc_list binding' bits' spec_list'.
        ForEachSharp_binding get init func (binding, bits, spec_list) desc_list =
          Inr (binding', bits', spec_list') \<longrightarrow>
        binding' = binding + length desc_list) \<and>
     (\<forall>k < length (info_buffers i).
        bit (bitset s) ((if has_readconst i then 1 else 0) + k) \<longleftrightarrow>
        buffer_GetSharp ext (info_buffers i ! k) i \<noteq> None) \<and>
     (\<forall>k < length (info_texture_buffers i).
        bit (bitset s) ((if has_readconst i then 1 else 0) + length (info_buffers i) + k) \<longleftrightarrow>
        texture_buffer_GetSharp ext (info_texture_buffers i ! k) i \<noteq> None) \<and>
     (\<forall>k < length (info_images i).
        bit (bitset s) ((if has_readconst i then 1 else 0) + length (info_buffers i) +
                        length (info_texture_buffers i) + k) \<longleftrightarrow>
        image_GetSharp ext (info_images i ! k) i \<noteq> None) \<and>
     (\<forall>k < length (info_fmasks i).
        bit (bitset s) ((if has_readconst i then 1 else 0) + length (info_buffers i) +
                        length (info_texture_buffers i) + length (info_images i) + k) \<longleftrightarrow>
        fmask_GetSharp ext (info_fmasks i ! k) i \<noteq> None)"
proof -
  have fb: "(if has_readconst i then 1 else 0) = first_binding i"
    by (simp add: first_binding_def)
  have adv: "\<forall>binding bits spec_list desc_list binding' bits' spec_list'.
        ForEachSharp_binding get init func (binding, bits, spec_list) desc_list =
          Inr (binding', bits', spec_list') \<longrightarrow>
        binding' = binding + length desc_list"
    by (auto dest: ForEachSharp_binding_Inr)
  note b = ctor_Inr(11) [OF assms]
  have c1: "\<forall>k < length (info_buffers i).
        bit (bitset s) (first_binding i + k) \<longleftrightarrow>
        buffer_GetSharp ext (info_buffers i ! k) i \<noteq> None"
    unfolding b by auto
  have c2: "\<forall>k < length (info_texture_buffers i).
        bit (bitset s) (first_binding i + length (info_buffers i) + k) \<longleftrightarrow>
        texture_buffer_GetSharp ext (info_texture_buffers i ! k) i \<noteq> None"
    unfolding b by auto
  have c3: "\<forall>k < length (info_images i).
        bit (bitset s) (first_binding i + length (info_buffers i) +
                        length (info_texture_buffers i) + k) \<longleftrightarrow>
        image_GetSharp ext (info_images i ! k) i \<noteq> None"
    unfolding b by auto
  have c4: "\<forall>k < length (info_fmasks i).
        bit (bitset s) (first_binding i + length (info_buffers i) +
                        length (info_texture_buffers i) + length (info_images i) + k) \<longleftrightarrow>
        fmask_GetSharp ext (info_fmasks i ! k) i \<noteq> None"
    unfolding b by auto
  show ?thesis unfolding fb using adv c1 c2 c3 c4 by blast
qed

text \<open>
  A run of C6 on the example provider: the loop over its three buffers takes the counter
  from 1 to 4, and the bits of resolved and unresolved descriptors of each kind are as
  stated.
\<close>

theorem binding_counter_tracks_resolution_witness:
  "StageSpecialization_ctor ex_ext ex_info ex_rt ex_profile 3 = Inr ex_spec \<and>
   ForEachSharp_binding (\<lambda>d. buffer_GetSharp ex_ext d ex_info) BufferSpecialization_init
     (fill_buffer ex_ext) (1, 0, []) [1, 0, 2] = Inr (4, 10, buffers ex_spec) \<and>
   (4::nat) = 1 + length [1, 0, 2 :: nat] \<and>
   has_readconst ex_info \<and>
   buffer_GetSharp ex_ext (info_buffers ex_info ! 0) ex_info \<noteq> None \<and>
   bit (bitset ex_spec) 1 \<and>
   buffer_GetSharp ex_ext (info_buffers ex_info ! 1) ex_info = None \<and>
   \<not> bit (bitset ex_spec) 2 \<and>
   texture_buffer_GetSharp ex_ext (info_texture_buffers ex_info ! 0) ex_info \<noteq> None \<and>
   bit (bitset ex_spec) 4 \<and>
   image_GetSharp ex_ext (info_images ex_info ! 1) ex_info = None \<and>
   \<not> bit (bitset ex_spec) 7 \<and>
   fmask_GetSharp ex_ext (info_fmasks ex_info ! 1) ex_info \<noteq> None \<and>
   bit (bitset ex_spec) 10"
proof -
  have run: "ForEachSharp_binding (\<lambda>d. buffer_GetSharp ex_ext d ex_info)
      BufferSpecialization_init (fill_buffer ex_ext) (1, 0, []) [1, 0, 2] =
      Inr (4, 10, buffers ex_spec)"
    by code_simp
  have len: "(0::nat) < length (info_buffers ex_info)" "(1::nat) < length (info_buffers ex_info)"
    "(0::nat) < length (info_texture_buffers ex_info)" "(1::nat) < length (info_images ex_info)"
    "(1::nat) < length (info_fmasks ex_info)"
    by (simp_all add: ex_info_def)
  have res: "has_readconst ex_info"
    "buffer_GetSharp ex_ext (info_buffers ex_info ! 0) ex_info \<noteq> None"
    "buffer_GetSharp ex_ext (info_buffers ex_info ! 1) ex_info = None"
    "texture_buffer_GetSharp ex_ext (info_texture_buffers ex_info ! 0) ex_info \<noteq> None"
    "image_GetSharp ex_ext (info_images ex_info ! 1) ex_info = None"
    "fmask_GetSharp ex_ext (info_fmasks ex_info ! 1) ex_info \<noteq> None"
    by (simp_all add: ex_info_def ex_ext_def)
  have sz: "length (info_buffers ex_info) = 3" "length (info_texture_buffers ex_info) = 2"
    "length (info_images ex_info) = 3"
    by (simp_all add: ex_info_def)
  note t = binding_counter_tracks_resolution [OF ex_spec_built,
      of "\<lambda>d. buffer_GetSharp ex_ext d ex_info" BufferSpecialization_init "fill_buffer ex_ext"]
  from t run have adv: "(4::nat) = 1 + length [1, 0, 2 :: nat]" by blast
  from t have t1: "\<forall>k < length (info_buffers ex_info).
        bit (bitset ex_spec) ((if has_readconst ex_info then 1 else 0) + k) \<longleftrightarrow>
        buffer_GetSharp ex_ext (info_buffers ex_info ! k) ex_info \<noteq> None"
    by blast
  from t have t2: "\<forall>k < length (info_texture_buffers ex_info).
        bit (bitset ex_spec) ((if has_readconst ex_info then 1 else 0) +
          length (info_buffers ex_info) + k) \<longleftrightarrow>
        texture_buffer_GetSharp ex_ext (info_texture_buffers ex_info ! k) ex_info \<noteq> None"
    by blast
  from t have t3: "\<forall>k < length (info_images ex_info).
        bit (bitset ex_spec) ((if has_readconst ex_info then 1 else 0) +
          length (info_buffers ex_info) + length (info_texture_buffers ex_info) + k) \<longleftrightarrow>
        image_GetSharp ex_ext (info_images ex_info ! k) ex_info \<noteq> None"
    by blast
  from t have t4: "\<forall>k < length (info_fmasks ex_info).
        bit (bitset ex_spec) ((if has_readconst ex_info then 1 else 0) +
          length (info_buffers ex_info) + length (info_texture_buffers ex_info) +
          length (info_images ex_info) + k) \<longleftrightarrow>
        fmask_GetSharp ex_ext (info_fmasks ex_info ! k) ex_info \<noteq> None"
    by blast
  from t1 [rule_format, OF len(1)] res(1,2) have b1: "bit (bitset ex_spec) 1" by simp
  from t1 [rule_format, OF len(2)] res(1,3) have b2: "\<not> bit (bitset ex_spec) 2" by (simp add: numeral_2_eq_2)
  from t2 [rule_format, OF len(3)] res(1,4) have b4: "bit (bitset ex_spec) 4" by (simp add: sz)
  from t3 [rule_format, OF len(4)] res(1,5) have b7: "\<not> bit (bitset ex_spec) 7" by (simp add: sz)
  from t4 [rule_format, OF len(5)] res(1,6) have b10: "bit (bitset ex_spec) 10" by (simp add: sz)
  show ?thesis using ex_spec_built run adv res b1 b2 b4 b7 b10 by simp
qed

text \<open>
  C7. \<^verbatim>\<open>Equal(A, A)\<close> returns true for every specialization \<open>A\<close> the constructor
  builds from a provider whose tracked slots fit the bitset, the invariant of the data
  model under which the comparator reads the bitset inside its capacity.
\<close>

theorem equal_reflexive_on_built:
  assumes "StageSpecialization_ctor ext i rt p st = Inr A"
    and "tracked_slots i \<le> MaxStageResources"
  shows "StageSpecialization_eq A A = Inr True"
  by (rule StageSpecialization_eq_refl [OF ctor_within_capacity [OF assms]])

text \<open>A run of C7 on the example provider.\<close>

theorem equal_reflexive_on_built_witness:
  "StageSpecialization_ctor ex_ext ex_info ex_rt ex_profile 3 = Inr ex_spec \<and>
   tracked_slots ex_info \<le> MaxStageResources \<and>
   StageSpecialization_eq ex_spec ex_spec = Inr True"
proof -
  have h: "tracked_slots ex_info \<le> MaxStageResources"
    by (simp add: tracked_slots_def first_binding_def ex_info_def MaxStageResources_def)
  show ?thesis
    using ex_spec_built h equal_reflexive_on_built [OF ex_spec_built h] by simp
qed

subsection \<open>Gated comparison\<close>

lemma gated_match_update:
  "k < length xs \<Longrightarrow> \<not> bit bits (base + k) \<Longrightarrow>
   gated_match differ bits base (xs[k := r]) ys = gated_match differ bits base xs ys"
  by (auto simp: gated_match_def nth_list_update)

lemma gated_match_differ:
  "k < length xs \<Longrightarrow> bit bits (base + k) \<Longrightarrow> differ (xs ! k) (ys ! k) \<Longrightarrow>
   \<not> gated_match differ bits base xs ys"
  by (auto simp: gated_match_def)

lemma StageSpecialization_eq_buffers_update:
  assumes shape: "same_shape a c" and cap: "within_capacity a"
    and k: "k < length (buffers a)" and unset: "\<not> bit (bitset c) (buffer_binding a k)"
  shows "StageSpecialization_eq (a\<lparr>buffers := (buffers a)[k := r]\<rparr>) c =
         StageSpecialization_eq a c"
proof -
  let ?a = "a\<lparr>buffers := (buffers a)[k := r]\<rparr>"
  have s: "same_shape ?a c" using shape by (simp add: same_shape_def)
  have w: "within_capacity ?a" using cap by (simp add: within_capacity_def)
  have g: "gated_match (\<lambda>x y. \<not> BufferSpecialization_eq x y) (bitset c)
             (first_binding (info a)) ((buffers a)[k := r]) (buffers c) =
           gated_match (\<lambda>x y. \<not> BufferSpecialization_eq x y) (bitset c)
             (first_binding (info a)) (buffers a) (buffers c)"
    using k unset by (intro gated_match_update) (simp_all add: buffer_binding_def)
  show ?thesis
    unfolding StageSpecialization_eq_char [OF s w] StageSpecialization_eq_char [OF shape cap]
    by (simp add: g buffer_binding_def tex_buffer_binding_def image_binding_def
          fmask_binding_def)
qed

lemma StageSpecialization_eq_tex_buffers_update:
  assumes shape: "same_shape a c" and cap: "within_capacity a"
    and k: "k < length (tex_buffers a)" and unset: "\<not> bit (bitset c) (tex_buffer_binding a k)"
  shows "StageSpecialization_eq (a\<lparr>tex_buffers := (tex_buffers a)[k := r]\<rparr>) c =
         StageSpecialization_eq a c"
proof -
  let ?a = "a\<lparr>tex_buffers := (tex_buffers a)[k := r]\<rparr>"
  have s: "same_shape ?a c" using shape by (simp add: same_shape_def)
  have w: "within_capacity ?a" using cap by (simp add: within_capacity_def)
  have g: "gated_match (\<noteq>) (bitset c)
             (first_binding (info a) + length (buffers a)) ((tex_buffers a)[k := r])
             (tex_buffers c) =
           gated_match (\<noteq>) (bitset c)
             (first_binding (info a) + length (buffers a)) (tex_buffers a) (tex_buffers c)"
    using k unset by (intro gated_match_update) (simp_all add: tex_buffer_binding_def)
  show ?thesis
    unfolding StageSpecialization_eq_char [OF s w] StageSpecialization_eq_char [OF shape cap]
    by (simp add: g buffer_binding_def tex_buffer_binding_def image_binding_def
          fmask_binding_def)
qed

lemma StageSpecialization_eq_images_update:
  assumes shape: "same_shape a c" and cap: "within_capacity a"
    and k: "k < length (images a)" and unset: "\<not> bit (bitset c) (image_binding a k)"
  shows "StageSpecialization_eq (a\<lparr>images := (images a)[k := r]\<rparr>) c =
         StageSpecialization_eq a c"
proof -
  let ?a = "a\<lparr>images := (images a)[k := r]\<rparr>"
  have s: "same_shape ?a c" using shape by (simp add: same_shape_def)
  have w: "within_capacity ?a" using cap by (simp add: within_capacity_def)
  have g: "gated_match (\<noteq>) (bitset c)
             (first_binding (info a) + length (buffers a) + length (tex_buffers a))
             ((images a)[k := r]) (images c) =
           gated_match (\<noteq>) (bitset c)
             (first_binding (info a) + length (buffers a) + length (tex_buffers a))
             (images a) (images c)"
    using k unset by (intro gated_match_update) (simp_all add: image_binding_def)
  show ?thesis
    unfolding StageSpecialization_eq_char [OF s w] StageSpecialization_eq_char [OF shape cap]
    by (simp add: g buffer_binding_def tex_buffer_binding_def image_binding_def
          fmask_binding_def)
qed

lemma StageSpecialization_eq_fmasks_update:
  assumes shape: "same_shape a c" and cap: "within_capacity a"
    and k: "k < length (fmasks a)" and unset: "\<not> bit (bitset c) (fmask_binding a k)"
  shows "StageSpecialization_eq (a\<lparr>fmasks := (fmasks a)[k := r]\<rparr>) c =
         StageSpecialization_eq a c"
proof -
  let ?a = "a\<lparr>fmasks := (fmasks a)[k := r]\<rparr>"
  have s: "same_shape ?a c" using shape by (simp add: same_shape_def)
  have w: "within_capacity ?a" using cap by (simp add: within_capacity_def)
  have g: "gated_match (\<noteq>) (bitset c)
             (first_binding (info a) + length (buffers a) + length (tex_buffers a) +
              length (images a))
             ((fmasks a)[k := r]) (fmasks c) =
           gated_match (\<noteq>) (bitset c)
             (first_binding (info a) + length (buffers a) + length (tex_buffers a) +
              length (images a))
             (fmasks a) (fmasks c)"
    using k unset by (intro gated_match_update) (simp_all add: fmask_binding_def)
  show ?thesis
    unfolding StageSpecialization_eq_char [OF s w] StageSpecialization_eq_char [OF shape cap]
    by (simp add: g buffer_binding_def tex_buffer_binding_def image_binding_def
          fmask_binding_def)
qed

lemma StageSpecialization_eq_set_bit_False:
  assumes shape: "same_shape a c" and cap: "within_capacity a"
  shows "k < length (buffers a) \<Longrightarrow> bit (bitset c) (buffer_binding a k) \<Longrightarrow>
           \<not> BufferSpecialization_eq (buffers a ! k) (buffers c ! k) \<Longrightarrow>
           StageSpecialization_eq a c = Inr False"
    and "k < length (tex_buffers a) \<Longrightarrow> bit (bitset c) (tex_buffer_binding a k) \<Longrightarrow>
           tex_buffers a ! k \<noteq> tex_buffers c ! k \<Longrightarrow>
           StageSpecialization_eq a c = Inr False"
    and "k < length (images a) \<Longrightarrow> bit (bitset c) (image_binding a k) \<Longrightarrow>
           images a ! k \<noteq> images c ! k \<Longrightarrow>
           StageSpecialization_eq a c = Inr False"
    and "k < length (fmasks a) \<Longrightarrow> bit (bitset c) (fmask_binding a k) \<Longrightarrow>
           fmasks a ! k \<noteq> fmasks c ! k \<Longrightarrow>
           StageSpecialization_eq a c = Inr False"
  unfolding StageSpecialization_eq_char [OF shape cap]
  using gated_match_differ [of k "buffers a" "bitset c" "buffer_binding a 0"
          "\<lambda>x y. \<not> BufferSpecialization_eq x y" "buffers c"]
        gated_match_differ [of k "tex_buffers a" "bitset c" "tex_buffer_binding a 0"
          "(\<noteq>)" "tex_buffers c"]
        gated_match_differ [of k "images a" "bitset c" "image_binding a 0"
          "(\<noteq>)" "images c"]
        gated_match_differ [of k "fmasks a" "bitset c" "fmask_binding a 0"
          "(\<noteq>)" "fmasks c"]
  by (simp_all add: buffer_binding_def tex_buffer_binding_def image_binding_def
        fmask_binding_def)

lemma ex_shape:
  "same_shape ex_spec ex_spec" "within_capacity ex_spec"
  "same_shape ex_changed ex_spec" "within_capacity ex_changed"
  by (simp_all add: same_shape_def within_capacity_def ex_changed_def ex_spec_def
        ex_info_def first_binding_def MaxStageResources_def)

lemma ctor_bits:
  assumes "StageSpecialization_ctor ext i rt p st = Inr s"
  shows "k < length (info_buffers i) \<Longrightarrow>
           bit (bitset s) (first_binding i + k) \<longleftrightarrow>
           buffer_GetSharp ext (info_buffers i ! k) i \<noteq> None"
    and "k < length (info_texture_buffers i) \<Longrightarrow>
           bit (bitset s) (first_binding i + length (info_buffers i) + k) \<longleftrightarrow>
           texture_buffer_GetSharp ext (info_texture_buffers i ! k) i \<noteq> None"
    and "k < length (info_images i) \<Longrightarrow>
           bit (bitset s) (first_binding i + length (info_buffers i) +
                           length (info_texture_buffers i) + k) \<longleftrightarrow>
           image_GetSharp ext (info_images i ! k) i \<noteq> None"
    and "k < length (info_fmasks i) \<Longrightarrow>
           bit (bitset s) (first_binding i + length (info_buffers i) +
                           length (info_texture_buffers i) + length (info_images i) + k) \<longleftrightarrow>
           fmask_GetSharp ext (info_fmasks i ! k) i \<noteq> None"
  unfolding ctor_Inr(11) [OF assms] by auto

text \<open>
  C1. For two specializations of the same shape (built from providers of identical
  shape, within the capacity of the bitset) and every buffer, texture-buffer, image and
  fmask slot at its binding position: when the cached specialization's bit at that
  position is unset, the candidate's record at that slot is not looked at, so replacing
  it by any record \<open>r\<close> leaves the result of \<^verbatim>\<open>Equal(candidate, cached)\<close> unchanged;
  when the bit is set and the two records are unequal by their type's equality, the
  result is false.
\<close>

theorem gated_slots_compared_iff_cached_bit_set:
  assumes "same_shape a c" and "within_capacity a"
  shows
    "(\<forall>k r. k < length (buffers a) \<and> \<not> bit (bitset c) (buffer_binding a k) \<longrightarrow>
        StageSpecialization_eq (a\<lparr>buffers := (buffers a)[k := r]\<rparr>) c =
        StageSpecialization_eq a c) \<and>
     (\<forall>k. k < length (buffers a) \<and> bit (bitset c) (buffer_binding a k) \<and>
        \<not> BufferSpecialization_eq (buffers a ! k) (buffers c ! k) \<longrightarrow>
        StageSpecialization_eq a c = Inr False) \<and>
     (\<forall>k r. k < length (tex_buffers a) \<and> \<not> bit (bitset c) (tex_buffer_binding a k) \<longrightarrow>
        StageSpecialization_eq (a\<lparr>tex_buffers := (tex_buffers a)[k := r]\<rparr>) c =
        StageSpecialization_eq a c) \<and>
     (\<forall>k. k < length (tex_buffers a) \<and> bit (bitset c) (tex_buffer_binding a k) \<and>
        tex_buffers a ! k \<noteq> tex_buffers c ! k \<longrightarrow>
        StageSpecialization_eq a c = Inr False) \<and>
     (\<forall>k r. k < length (images a) \<and> \<not> bit (bitset c) (image_binding a k) \<longrightarrow>
        StageSpecialization_eq (a\<lparr>images := (images a)[k := r]\<rparr>) c =
        StageSpecialization_eq a c) \<and>
     (\<forall>k. k < length (images a) \<and> bit (bitset c) (image_binding a k) \<and>
        images a ! k \<noteq> images c ! k \<longrightarrow>
        StageSpecialization_eq a c = Inr False) \<and>
     (\<forall>k r. k < length (fmasks a) \<and> \<not> bit (bitset c) (fmask_binding a k) \<longrightarrow>
        StageSpecialization_eq (a\<lparr>fmasks := (fmasks a)[k := r]\<rparr>) c =
        StageSpecialization_eq a c) \<and>
     (\<forall>k. k < length (fmasks a) \<and> bit (bitset c) (fmask_binding a k) \<and>
        fmasks a ! k \<noteq> fmasks c ! k \<longrightarrow>
        StageSpecialization_eq a c = Inr False)"
  using StageSpecialization_eq_buffers_update [OF assms]
    StageSpecialization_eq_tex_buffers_update [OF assms]
    StageSpecialization_eq_images_update [OF assms]
    StageSpecialization_eq_fmasks_update [OF assms]
    StageSpecialization_eq_set_bit_False [OF assms]
  by blast

text \<open>
  A run of C1 on the built example as the cached key: overwriting the candidate's record
  at an unresolved slot of each kind changes nothing, and a candidate that differs at a
  resolved slot of each kind is unequal.
\<close>

theorem gated_slots_compared_iff_cached_bit_set_witness:
  "same_shape ex_spec ex_spec \<and> within_capacity ex_spec \<and>
   same_shape ex_changed ex_spec \<and> within_capacity ex_changed \<and>
   \<not> bit (bitset ex_spec) (buffer_binding ex_spec 1) \<and>
   StageSpecialization_eq
     (ex_spec\<lparr>buffers := (buffers ex_spec)
        [1 := \<lparr>stride = 16, BufferSpecialization.is_storage = 0, size' = 1024\<rparr>]\<rparr>) ex_spec =
     StageSpecialization_eq ex_spec ex_spec \<and>
   \<not> bit (bitset ex_spec) (tex_buffer_binding ex_spec 1) \<and>
   StageSpecialization_eq
     (ex_spec\<lparr>tex_buffers := (tex_buffers ex_spec) [1 := tex_buffers ex_changed ! 0]\<rparr>) ex_spec =
     StageSpecialization_eq ex_spec ex_spec \<and>
   \<not> bit (bitset ex_spec) (image_binding ex_spec 1) \<and>
   StageSpecialization_eq
     (ex_spec\<lparr>images := (images ex_spec) [1 := images ex_changed ! 2]\<rparr>) ex_spec =
     StageSpecialization_eq ex_spec ex_spec \<and>
   \<not> bit (bitset ex_spec) (fmask_binding ex_spec 0) \<and>
   StageSpecialization_eq
     (ex_spec\<lparr>fmasks := (fmasks ex_spec) [0 := fmasks ex_changed ! 1]\<rparr>) ex_spec =
     StageSpecialization_eq ex_spec ex_spec \<and>
   bit (bitset ex_spec) (buffer_binding ex_changed 0) \<and>
   \<not> BufferSpecialization_eq (buffers ex_changed ! 0) (buffers ex_spec ! 0) \<and>
   bit (bitset ex_spec) (tex_buffer_binding ex_changed 0) \<and>
   tex_buffers ex_changed ! 0 \<noteq> tex_buffers ex_spec ! 0 \<and>
   bit (bitset ex_spec) (image_binding ex_changed 2) \<and>
   images ex_changed ! 2 \<noteq> images ex_spec ! 2 \<and>
   bit (bitset ex_spec) (fmask_binding ex_changed 1) \<and>
   fmasks ex_changed ! 1 \<noteq> fmasks ex_spec ! 1 \<and>
   StageSpecialization_eq ex_changed ex_spec = Inr False"
proof -
  note same = gated_slots_compared_iff_cached_bit_set [OF ex_shape(1,2)]
  note chg = gated_slots_compared_iff_cached_bit_set [OF ex_shape(3,4)]
  have len: "(1::nat) < length (buffers ex_spec)" "(1::nat) < length (tex_buffers ex_spec)"
    "(1::nat) < length (images ex_spec)" "(0::nat) < length (fmasks ex_spec)"
    "(0::nat) < length (buffers ex_changed)" "(0::nat) < length (tex_buffers ex_changed)"
    "(2::nat) < length (images ex_changed)" "(1::nat) < length (fmasks ex_changed)"
    by (simp_all add: ex_spec_def ex_changed_def)
  have unset: "\<not> bit (bitset ex_spec) (buffer_binding ex_spec 1)"
    "\<not> bit (bitset ex_spec) (tex_buffer_binding ex_spec 1)"
    "\<not> bit (bitset ex_spec) (image_binding ex_spec 1)"
    "\<not> bit (bitset ex_spec) (fmask_binding ex_spec 0)"
    by code_simp+
  have set: "bit (bitset ex_spec) (buffer_binding ex_changed 0)"
    "bit (bitset ex_spec) (tex_buffer_binding ex_changed 0)"
    "bit (bitset ex_spec) (image_binding ex_changed 2)"
    "bit (bitset ex_spec) (fmask_binding ex_changed 1)"
    by code_simp+
  have ne: "\<not> BufferSpecialization_eq (buffers ex_changed ! 0) (buffers ex_spec ! 0)"
    "tex_buffers ex_changed ! 0 \<noteq> tex_buffers ex_spec ! 0"
    "images ex_changed ! 2 \<noteq> images ex_spec ! 2"
    "fmasks ex_changed ! 1 \<noteq> fmasks ex_spec ! 1"
    by code_simp+
  from same len(1) unset(1) have i1: "StageSpecialization_eq
     (ex_spec\<lparr>buffers := (buffers ex_spec)
        [1 := \<lparr>stride = 16, BufferSpecialization.is_storage = 0, size' = 1024\<rparr>]\<rparr>) ex_spec =
     StageSpecialization_eq ex_spec ex_spec" by blast
  from same len(2) unset(2) have i2: "StageSpecialization_eq
     (ex_spec\<lparr>tex_buffers := (tex_buffers ex_spec) [1 := tex_buffers ex_changed ! 0]\<rparr>) ex_spec =
     StageSpecialization_eq ex_spec ex_spec" by blast
  from same len(3) unset(3) have i3: "StageSpecialization_eq
     (ex_spec\<lparr>images := (images ex_spec) [1 := images ex_changed ! 2]\<rparr>) ex_spec =
     StageSpecialization_eq ex_spec ex_spec" by blast
  from same len(4) unset(4) have i4: "StageSpecialization_eq
     (ex_spec\<lparr>fmasks := (fmasks ex_spec) [0 := fmasks ex_changed ! 1]\<rparr>) ex_spec =
     StageSpecialization_eq ex_spec ex_spec" by blast
  from chg len(5) set(1) ne(1) have f1: "StageSpecialization_eq ex_changed ex_spec = Inr False"
    by blast
  from chg len(6) set(2) ne(2) have f2: "StageSpecialization_eq ex_changed ex_spec = Inr False"
    by blast
  from chg len(7) set(3) ne(3) have f3: "StageSpecialization_eq ex_changed ex_spec = Inr False"
    by blast
  from chg len(8) set(4) ne(4) have f4: "StageSpecialization_eq ex_changed ex_spec = Inr False"
    by blast
  show ?thesis
    using ex_shape unset set ne i1 i2 i3 i4 f1 f2 f3 f4 by blast
qed

text \<open>
  C4. Sampler records are compared element by element, with no gating by the bitset:
  for two specializations of the same shape, if the sampler records differ at some
  index, \<^verbatim>\<open>Equal\<close> returns false whatever the two bitsets are.
\<close>

theorem sampler_mismatch_breaks_equality:
  assumes "same_shape a c" and "within_capacity a"
    and "k < length (samplers a)" and "samplers a ! k \<noteq> samplers c ! k"
  shows "StageSpecialization_eq (a\<lparr>bitset := bits_a\<rparr>) (c\<lparr>bitset := bits_c\<rparr>) = Inr False"
proof -
  have s: "same_shape (a\<lparr>bitset := bits_a\<rparr>) (c\<lparr>bitset := bits_c\<rparr>)"
    using assms(1) by (simp add: same_shape_def)
  have w: "within_capacity (a\<lparr>bitset := bits_a\<rparr>)"
    using assms(2) by (simp add: within_capacity_def)
  have "samplers a \<noteq> samplers c" using assms(3,4) by auto
  then show ?thesis
    unfolding StageSpecialization_eq_char [OF s w] by simp
qed

text \<open>
  A run of C4: the candidate's first sampler differs in \<open>force_unnormalized\<close>, with the
  candidate's bitset empty and the cached one full.
\<close>

theorem sampler_mismatch_breaks_equality_witness:
  "same_shape ex_sampler_changed ex_spec \<and> within_capacity ex_sampler_changed \<and>
   (0::nat) < length (samplers ex_sampler_changed) \<and>
   SamplerSpecialization.force_unnormalized (samplers ex_sampler_changed ! 0) \<noteq>
     SamplerSpecialization.force_unnormalized (samplers ex_spec ! 0) \<and>
   StageSpecialization_eq (ex_sampler_changed\<lparr>bitset := 0\<rparr>) (ex_spec\<lparr>bitset := - 1\<rparr>) =
     Inr False"
proof -
  have s: "same_shape ex_sampler_changed ex_spec" "within_capacity ex_sampler_changed"
    by (simp_all add: same_shape_def within_capacity_def ex_sampler_changed_def ex_spec_def
          ex_info_def first_binding_def MaxStageResources_def)
  have l: "(0::nat) < length (samplers ex_sampler_changed)"
    by (simp add: ex_sampler_changed_def ex_spec_def)
  have d: "SamplerSpecialization.force_unnormalized (samplers ex_sampler_changed ! 0) \<noteq>
     SamplerSpecialization.force_unnormalized (samplers ex_spec ! 0)"
    by (simp add: ex_sampler_changed_def ex_spec_def)
  then have n: "samplers ex_sampler_changed ! 0 \<noteq> samplers ex_spec ! 0" by auto
  show ?thesis
    using s l d sampler_mismatch_breaks_equality [OF s l n, of 0 "- 1"] by simp
qed

lemma StageSpecialization_eq_readconst:
  assumes len: "length (vs_attribs a) \<le> length (vs_attribs c)"
    and rc: "has_readconst (info a) \<noteq> has_readconst (info c)"
  shows "StageSpecialization_eq a c = Inr False"
proof -
  obtain b where b: "compare_loop (\<noteq>) (vs_attribs a) (vs_attribs c) 0 = Inr b"
    using compare_loop_char [OF len] by blast
  show ?thesis
    unfolding StageSpecialization_eq_def b using rc by (cases b) simp_all
qed

text \<open>
  C8. \<^verbatim>\<open>Equal\<close> returns false when the candidate's provider and the cached one
  disagree on \<^verbatim>\<open>has_readconst\<close> (the vertex attributes, compared before, being
  indexable). Otherwise, against a cached specialization built by the constructor, it
  recomputes the binding counter as the constructor did, from 0 and past the
  read-constant slot when present: the bit it consults for the
  \<open>k\<close>-th record of each tracked kind is the one the constructor set for the \<open>k\<close>-th
  descriptor of that kind, so the records compared are exactly those whose descriptor
  resolved when the cached specialization was built.
\<close>

theorem readconst_mismatch_and_counter_recomputed:
  "(length (vs_attribs a) \<le> length (vs_attribs c) \<and>
    has_readconst (info a) \<noteq> has_readconst (info c) \<longrightarrow>
      StageSpecialization_eq a c = Inr False) \<and>
   (StageSpecialization_ctor ext i rt p st = Inr c \<and> same_shape a c \<and> within_capacity a \<and>
    has_readconst (info a) = has_readconst i \<longrightarrow>
      StageSpecialization_eq a c =
        Inr (start a = start c \<and> runtime_info a = runtime_info c \<and>
             fetch_shader_data a = fetch_shader_data c \<and> vs_attribs a = vs_attribs c \<and>
             (\<forall>k < length (info_buffers i).
                buffer_GetSharp ext (info_buffers i ! k) i \<noteq> None \<longrightarrow>
                BufferSpecialization_eq (buffers a ! k) (buffers c ! k)) \<and>
             (\<forall>k < length (info_texture_buffers i).
                texture_buffer_GetSharp ext (info_texture_buffers i ! k) i \<noteq> None \<longrightarrow>
                tex_buffers a ! k = tex_buffers c ! k) \<and>
             (\<forall>k < length (info_images i).
                image_GetSharp ext (info_images i ! k) i \<noteq> None \<longrightarrow>
                images a ! k = images c ! k) \<and>
             (\<forall>k < length (info_fmasks i).
                fmask_GetSharp ext (info_fmasks i ! k) i \<noteq> None \<longrightarrow>
                fmasks a ! k = fmasks c ! k) \<and>
             samplers a = samplers c))"
proof (intro conjI impI)
  assume "length (vs_attribs a) \<le> length (vs_attribs c) \<and>
    has_readconst (info a) \<noteq> has_readconst (info c)"
  then show "StageSpecialization_eq a c = Inr False"
    using StageSpecialization_eq_readconst by blast
next
  assume h: "StageSpecialization_ctor ext i rt p st = Inr c \<and> same_shape a c \<and>
    within_capacity a \<and> has_readconst (info a) = has_readconst i"
  then have built: "StageSpecialization_ctor ext i rt p st = Inr c"
    and shape: "same_shape a c" and cap: "within_capacity a"
    and rc: "has_readconst (info a) = has_readconst i"
    by blast+
  from rc have fb: "first_binding (info a) = first_binding i"
    by (simp add: first_binding_def)
  note len = ctor_lengths [OF built]
  have la: "length (buffers a) = length (info_buffers i)"
    "length (tex_buffers a) = length (info_texture_buffers i)"
    "length (images a) = length (info_images i)"
    "length (fmasks a) = length (info_fmasks i)"
    using shape len by (simp_all add: same_shape_def)
  have g1: "gated_match (\<lambda>x y. \<not> BufferSpecialization_eq x y) (bitset c)
              (buffer_binding a 0) (buffers a) (buffers c) \<longleftrightarrow>
            (\<forall>k < length (info_buffers i).
               buffer_GetSharp ext (info_buffers i ! k) i \<noteq> None \<longrightarrow>
               BufferSpecialization_eq (buffers a ! k) (buffers c ! k))"
    using ctor_bits(1) [OF built]
    by (simp add: gated_match_def buffer_binding_def fb la)
  have g2: "gated_match (\<noteq>) (bitset c) (tex_buffer_binding a 0) (tex_buffers a)
              (tex_buffers c) \<longleftrightarrow>
            (\<forall>k < length (info_texture_buffers i).
               texture_buffer_GetSharp ext (info_texture_buffers i ! k) i \<noteq> None \<longrightarrow>
               tex_buffers a ! k = tex_buffers c ! k)"
    using ctor_bits(2) [OF built]
    by (simp add: gated_match_def tex_buffer_binding_def fb la)
  have g3: "gated_match (\<noteq>) (bitset c) (image_binding a 0) (images a) (images c) \<longleftrightarrow>
            (\<forall>k < length (info_images i).
               image_GetSharp ext (info_images i ! k) i \<noteq> None \<longrightarrow>
               images a ! k = images c ! k)"
    using ctor_bits(3) [OF built]
    by (simp add: gated_match_def image_binding_def fb la)
  have g4: "gated_match (\<noteq>) (bitset c) (fmask_binding a 0) (fmasks a) (fmasks c) \<longleftrightarrow>
            (\<forall>k < length (info_fmasks i).
               fmask_GetSharp ext (info_fmasks i ! k) i \<noteq> None \<longrightarrow>
               fmasks a ! k = fmasks c ! k)"
    using ctor_bits(4) [OF built]
    by (simp add: gated_match_def fmask_binding_def fb la)
  show "StageSpecialization_eq a c =
          Inr (start a = start c \<and> runtime_info a = runtime_info c \<and>
               fetch_shader_data a = fetch_shader_data c \<and> vs_attribs a = vs_attribs c \<and>
               (\<forall>k < length (info_buffers i).
                  buffer_GetSharp ext (info_buffers i ! k) i \<noteq> None \<longrightarrow>
                  BufferSpecialization_eq (buffers a ! k) (buffers c ! k)) \<and>
               (\<forall>k < length (info_texture_buffers i).
                  texture_buffer_GetSharp ext (info_texture_buffers i ! k) i \<noteq> None \<longrightarrow>
                  tex_buffers a ! k = tex_buffers c ! k) \<and>
               (\<forall>k < length (info_images i).
                  image_GetSharp ext (info_images i ! k) i \<noteq> None \<longrightarrow>
                  images a ! k = images c ! k) \<and>
               (\<forall>k < length (info_fmasks i).
                  fmask_GetSharp ext (info_fmasks i ! k) i \<noteq> None \<longrightarrow>
                  fmasks a ! k = fmasks c ! k) \<and>
               samplers a = samplers c)"
    unfolding StageSpecialization_eq_char [OF shape cap] g1 g2 g3 g4
    using rc by (simp add: ctor_Inr(1) [OF built])
qed

text \<open>
  A run of C8: a candidate whose provider has no read-constant slot is unequal to the
  built example; a candidate with the same flag that differs only at a buffer slot
  unresolved in the cached key is equal to it.
\<close>

theorem readconst_mismatch_and_counter_recomputed_witness:
  "length (vs_attribs ex_no_readconst) \<le> length (vs_attribs ex_spec) \<and>
   has_readconst (info ex_no_readconst) \<noteq> has_readconst (info ex_spec) \<and>
   StageSpecialization_eq ex_no_readconst ex_spec = Inr False \<and>
   StageSpecialization_ctor ex_ext ex_info ex_rt ex_profile 3 = Inr ex_spec \<and>
   same_shape ex_candidate ex_spec \<and> within_capacity ex_candidate \<and>
   has_readconst (info ex_candidate) = has_readconst ex_info \<and>
   buffers ex_candidate ! 1 \<noteq> buffers ex_spec ! 1 \<and>
   StageSpecialization_eq ex_candidate ex_spec = Inr True"
proof -
  have l1: "length (vs_attribs ex_no_readconst) \<le> length (vs_attribs ex_spec)"
    by (simp add: ex_no_readconst_def)
  have r1: "has_readconst (info ex_no_readconst) \<noteq> has_readconst (info ex_spec)"
    by (simp add: ex_no_readconst_def ex_spec_def ex_info_def)
  have s2: "same_shape ex_candidate ex_spec" "within_capacity ex_candidate"
    by (simp_all add: same_shape_def within_capacity_def ex_candidate_def ex_spec_def
          ex_info_def first_binding_def MaxStageResources_def)
  have r2: "has_readconst (info ex_candidate) = has_readconst ex_info"
    by (simp add: ex_candidate_def ex_spec_def)
  have d: "buffers ex_candidate ! 1 \<noteq> buffers ex_spec ! 1"
    by (simp add: ex_candidate_def ex_spec_def)
  have f: "StageSpecialization_eq ex_no_readconst ex_spec = Inr False"
    using readconst_mismatch_and_counter_recomputed [of ex_no_readconst ex_spec] l1 r1
    by blast
  have "StageSpecialization_eq ex_candidate ex_spec = Inr True"
    using readconst_mismatch_and_counter_recomputed
      [of ex_candidate ex_spec ex_ext ex_info ex_rt ex_profile 3] ex_spec_built s2 r2
    by (simp add: ex_candidate_def ex_spec_def ex_info_def ex_ext_def
          BufferSpecialization_eq_def All_less_Suc nth_Cons')
  with ex_spec_built l1 r1 s2 r2 d f show ?thesis by blast
qed

subsection \<open>Images and the fetch shader\<close>

lemma StageSpecialization_eq_early:
  "start a \<noteq> start c \<or> runtime_info a \<noteq> runtime_info c \<or>
   fetch_shader_data a \<noteq> fetch_shader_data c \<Longrightarrow>
   StageSpecialization_eq a c = Inr False"
  by (auto simp: StageSpecialization_eq_def)

lemma ctor_same_shape:
  assumes a: "StageSpecialization_ctor ext_a i rt p st = Inr a"
    and c: "StageSpecialization_ctor ext_c i rt p st = Inr c"
    and fsd: "fetch_shader_data a = fetch_shader_data c"
  shows "same_shape a c"
proof -
  have "ParseFetchShader ext_a i = ParseFetchShader ext_c i"
    using fsd by (simp add: ctor_Inr(4) [OF a] ctor_Inr(4) [OF c])
  then have "length (vs_attribs a) = length (vs_attribs c)"
    by (auto simp: ctor_Inr(5) [OF a] ctor_Inr(5) [OF c] built_vs_attribs_def)
  then show ?thesis
    by (simp add: same_shape_def ctor_lengths [OF a] ctor_lengths [OF c])
qed

lemma fill_image_storage:
  "image_IsStorage ext d sharp \<Longrightarrow>
   ImageSpecialization.dst_select (fill_image ext spec d sharp) = DstSelect sharp"
  "\<not> image_IsStorage ext d sharp \<Longrightarrow>
   ImageSpecialization.dst_select (fill_image ext spec d sharp) =
     ImageSpecialization.dst_select spec"
  by (simp_all add: fill_image_def)

lemma externals_image_update [simp]:
  "fill_vs_attrib (ext\<lparr>image_GetSharp := f\<rparr>) = fill_vs_attrib ext"
  "fill_buffer (ext\<lparr>image_GetSharp := f\<rparr>) = fill_buffer ext"
  "fill_tex_buffer (ext\<lparr>image_GetSharp := f\<rparr>) = fill_tex_buffer ext"
  "init_tess_runtime_info (ext\<lparr>image_GetSharp := f\<rparr>) = init_tess_runtime_info ext"
  by (intro ext, simp add: fill_vs_attrib_def fill_buffer_def fill_tex_buffer_def
        init_tess_runtime_info_def)+

lemma storage_image_mapping_differs:
  assumes a: "StageSpecialization_ctor ext_a i_a rt_a p_a st_a = Inr a"
    and c: "StageSpecialization_ctor ext_c i_c rt_c p_c st_c = Inr c"
    and shape: "same_shape a c" and cap: "tracked_slots i_a \<le> MaxStageResources"
    and ima: "info_images i_a = [d_a]" and imc: "info_images i_c = [d_c]"
    and ra: "image_GetSharp ext_a d_a i_a = Some sharp_a"
    and rc: "image_GetSharp ext_c d_c i_c = Some sharp_c"
    and sa: "image_IsStorage ext_a d_a sharp_a" and sc: "image_IsStorage ext_c d_c sharp_c"
    and ne: "DstSelect sharp_a \<noteq> DstSelect sharp_c"
  shows "StageSpecialization_eq a c = Inr False"
proof (cases "has_readconst (info a) = has_readconst (info c)")
  case False
  moreover have "length (vs_attribs a) \<le> length (vs_attribs c)"
    using shape by (simp add: same_shape_def)
  ultimately show ?thesis by (intro StageSpecialization_eq_readconst)
next
  case True
  have ia: "images a = [fill_image ext_a ImageSpecialization_init d_a sharp_a]"
    by (simp add: ctor_Inr(8) [OF a] ima built_record_def ra)
  have ic: "images c = [fill_image ext_c ImageSpecialization_init d_c sharp_c]"
    by (simp add: ctor_Inr(8) [OF c] imc built_record_def rc)
  have w: "within_capacity a" by (rule ctor_within_capacity [OF a cap])
  have k: "0 < length (images a)" by (simp add: ia)
  have fb: "first_binding (info a) = first_binding i_c"
    using True by (simp add: first_binding_def ctor_Inr(1) [OF c])
  have pos: "image_binding a 0 =
      first_binding i_c + length (info_buffers i_c) + length (info_texture_buffers i_c) + 0"
    using shape by (simp add: image_binding_def same_shape_def ctor_lengths [OF c] fb)
  have b: "bit (bitset c) (image_binding a 0)"
    unfolding pos using ctor_bits(3) [OF c, of 0] by (simp add: imc rc)
  have "ImageSpecialization.dst_select (images a ! 0) \<noteq>
        ImageSpecialization.dst_select (images c ! 0)"
    using ne by (simp add: ia ic fill_image_storage(1) [OF sa] fill_image_storage(1) [OF sc])
  then have "images a ! 0 \<noteq> images c ! 0" by auto
  then show ?thesis by (rule StageSpecialization_eq_set_bit_False(3) [OF shape w k b])
qed

lemma sampled_image_mapping_ignored:
  assumes a: "StageSpecialization_ctor ext' i rt p st = Inr a"
    and c: "StageSpecialization_ctor ext i rt p st = Inr c"
    and cap: "tracked_slots i \<le> MaxStageResources"
    and img: "info_images i = [d]"
    and rc: "image_GetSharp ext d i = Some sharp"
    and ea: "ext' = ext\<lparr>image_GetSharp := (image_GetSharp ext)(d := \<lambda>_. Some (sharp\<lparr>DstSelect := m\<rparr>))\<rparr>"
    and nc: "\<not> image_IsStorage ext d sharp"
    and na: "\<not> image_IsStorage ext d (sharp\<lparr>DstSelect := m\<rparr>)"
  shows "ImageSpecialization.dst_select (images a ! 0) =
           ImageSpecialization.dst_select ImageSpecialization_init"
    and "ImageSpecialization.dst_select (images c ! 0) =
           ImageSpecialization.dst_select ImageSpecialization_init"
    and "StageSpecialization_eq a c = Inr True"
proof -
  have ra: "image_GetSharp ext' d i = Some (sharp\<lparr>DstSelect := m\<rparr>)"
    unfolding ea by simp
  have na': "\<not> image_IsStorage ext' d (sharp\<lparr>DstSelect := m\<rparr>)"
    unfolding ea using na by simp
  have ia: "images a = [fill_image ext' ImageSpecialization_init d (sharp\<lparr>DstSelect := m\<rparr>)]"
    by (simp add: ctor_Inr(8) [OF a] img built_record_def ra)
  have ic: "images c = [fill_image ext ImageSpecialization_init d sharp]"
    by (simp add: ctor_Inr(8) [OF c] img built_record_def rc)
  show "ImageSpecialization.dst_select (images a ! 0) =
          ImageSpecialization.dst_select ImageSpecialization_init"
    by (simp add: ia fill_image_storage(2) [OF na'])
  show "ImageSpecialization.dst_select (images c ! 0) =
          ImageSpecialization.dst_select ImageSpecialization_init"
    by (simp add: ic fill_image_storage(2) [OF nc])
  have fi: "fill_image ext' ImageSpecialization_init d (sharp\<lparr>DstSelect := m\<rparr>) =
            fill_image ext ImageSpecialization_init d sharp"
    using na nc unfolding ea by (simp add: fill_image_def)
  have sel: "ParseFetchShader ext' = ParseFetchShader ext"
    "attrib_GetSharp ext' = attrib_GetSharp ext"
    "buffer_GetSharp ext' = buffer_GetSharp ext"
    "texture_buffer_GetSharp ext' = texture_buffer_GetSharp ext"
    "fmask_GetSharp ext' = fmask_GetSharp ext"
    "sampler_GetSharp ext' = sampler_GetSharp ext"
    "fill_vs_attrib ext' = fill_vs_attrib ext"
    "fill_buffer ext' = fill_buffer ext"
    "fill_tex_buffer ext' = fill_tex_buffer ext"
    "init_tess_runtime_info ext' = init_tess_runtime_info ext"
    unfolding ea by simp_all
  have bits: "bitset a = bitset c"
    by (rule bit_eqI) (simp add: ctor_Inr(11) [OF a] ctor_Inr(11) [OF c] sel img ra rc)
  have va: "built_vs_attribs ext' i p = built_vs_attribs ext i p"
    unfolding built_vs_attribs_def sel by (rule refl)
  have "a = c"
    by (rule StageSpecialization.equality)
       (simp_all add: bits ia ic fi ctor_Inr(1-7,9,10) [OF a] ctor_Inr(1-7,9,10) [OF c]
          sel va)
  with StageSpecialization_eq_refl [OF ctor_within_capacity [OF c cap]]
  show "StageSpecialization_eq a c = Inr True" by simp
qed

text \<open>
  C5. For two built specializations of the same shape whose single image descriptor
  resolved in both: if both records are built as storage images and the destination
  component mappings of the two hardware records differ, \<^verbatim>\<open>Equal\<close> returns false.
  If, for the same provider, both are built as non-storage images from hardware records
  that differ only in the destination component mapping, everything else being the
  same, the mapping is populated in neither record (both keep the default) and
  \<^verbatim>\<open>Equal\<close> returns true.
\<close>

theorem image_mapping_compared_only_for_storage:
  "(StageSpecialization_ctor ext_a i_a rt_a p_a st_a = Inr a \<and>
    StageSpecialization_ctor ext_c i_c rt_c p_c st_c = Inr c \<and>
    same_shape a c \<and> tracked_slots i_a \<le> MaxStageResources \<and>
    info_images i_a = [d_a] \<and> info_images i_c = [d_c] \<and>
    image_GetSharp ext_a d_a i_a = Some sharp_a \<and>
    image_GetSharp ext_c d_c i_c = Some sharp_c \<and>
    image_IsStorage ext_a d_a sharp_a \<and> image_IsStorage ext_c d_c sharp_c \<and>
    DstSelect sharp_a \<noteq> DstSelect sharp_c \<longrightarrow>
      StageSpecialization_eq a c = Inr False) \<and>
   (StageSpecialization_ctor ext' i rt p st = Inr a' \<and>
    StageSpecialization_ctor ext i rt p st = Inr c' \<and>
    tracked_slots i \<le> MaxStageResources \<and> info_images i = [d] \<and>
    image_GetSharp ext d i = Some sharp \<and>
    ext' = ext\<lparr>image_GetSharp :=
                 (image_GetSharp ext)(d := \<lambda>_. Some (sharp\<lparr>DstSelect := m\<rparr>))\<rparr> \<and>
    \<not> image_IsStorage ext d sharp \<and> \<not> image_IsStorage ext d (sharp\<lparr>DstSelect := m\<rparr>) \<longrightarrow>
      ImageSpecialization.dst_select (images a' ! 0) =
        ImageSpecialization.dst_select ImageSpecialization_init \<and>
      ImageSpecialization.dst_select (images c' ! 0) =
        ImageSpecialization.dst_select ImageSpecialization_init \<and>
      StageSpecialization_eq a' c' = Inr True)"
  using storage_image_mapping_differs [of ext_a i_a rt_a p_a st_a a ext_c i_c rt_c p_c st_c c
      d_a d_c sharp_a sharp_c]
    sampled_image_mapping_ignored [of ext' i rt p st a' ext c' d sharp m]
  by blast

text \<open>
  A run of C5: the storage image \<open>3\<close> and the sampled image \<open>1\<close> of the example, each
  resolving to a hardware record with mapping \<open>9\<close> for the candidate.
\<close>

theorem image_mapping_compared_only_for_storage_witness:
  "info_images ex_info_storage = [3] \<and>
   tracked_slots ex_info_storage \<le> MaxStageResources \<and>
   image_GetSharp ex_ext_storage 3 ex_info_storage = Some (ex_image 9) \<and>
   image_GetSharp ex_ext 3 ex_info_storage = Some (ex_image 3) \<and>
   image_IsStorage ex_ext_storage 3 (ex_image 9) \<and> image_IsStorage ex_ext 3 (ex_image 3) \<and>
   DstSelect (ex_image 9) \<noteq> DstSelect (ex_image 3) \<and>
   (\<exists>a c. StageSpecialization_ctor ex_ext_storage ex_info_storage ex_rt ex_profile 3 = Inr a \<and>
          StageSpecialization_ctor ex_ext ex_info_storage ex_rt ex_profile 3 = Inr c \<and>
          same_shape a c \<and> StageSpecialization_eq a c = Inr False) \<and>
   info_images ex_info_sampled = [1] \<and>
   tracked_slots ex_info_sampled \<le> MaxStageResources \<and>
   image_GetSharp ex_ext 1 ex_info_sampled = Some (ex_image 1) \<and>
   \<not> image_IsStorage ex_ext 1 (ex_image 1) \<and>
   \<not> image_IsStorage ex_ext 1 ((ex_image 1)\<lparr>DstSelect := 9\<rparr>) \<and>
   DstSelect (ex_image 1) \<noteq> 9 \<and>
   (\<exists>a c. StageSpecialization_ctor ex_ext_sampled ex_info_sampled ex_rt ex_profile 3 = Inr a \<and>
          StageSpecialization_ctor ex_ext ex_info_sampled ex_rt ex_profile 3 = Inr c \<and>
          ImageSpecialization.dst_select (images a ! 0) = 0 \<and>
          ImageSpecialization.dst_select (images c ! 0) = 0 \<and>
          StageSpecialization_eq a c = Inr True)"
proof -
  have i1: "info_images ex_info_storage = [3]" and i2: "info_images ex_info_sampled = [1]"
    by (simp_all add: ex_info_storage_def ex_info_sampled_def)
  have c1: "tracked_slots ex_info_storage \<le> MaxStageResources"
    and c2: "tracked_slots ex_info_sampled \<le> MaxStageResources"
    by (simp_all add: tracked_slots_def first_binding_def ex_info_storage_def
          ex_info_sampled_def ex_info_def MaxStageResources_def)
  have g1: "image_GetSharp ex_ext_storage 3 ex_info_storage = Some (ex_image 9)"
    "image_GetSharp ex_ext 3 ex_info_storage = Some (ex_image 3)"
    and g2: "image_GetSharp ex_ext 1 ex_info_sampled = Some (ex_image 1)"
    by (simp_all add: ex_ext_storage_def ex_ext_def)
  have s1: "image_IsStorage ex_ext_storage 3 (ex_image 9)" "image_IsStorage ex_ext 3 (ex_image 3)"
    and s2: "\<not> image_IsStorage ex_ext 1 (ex_image 1)"
    "\<not> image_IsStorage ex_ext 1 ((ex_image 1)\<lparr>DstSelect := 9\<rparr>)"
    by (simp_all add: ex_ext_storage_def ex_ext_def)
  have d: "DstSelect (ex_image 9) \<noteq> DstSelect (ex_image 3)" "DstSelect (ex_image 1) \<noteq> 9"
    by (simp_all add: ex_image_def)
  have z: "ImageSpecialization.dst_select ImageSpecialization_init = 0"
    by (simp add: ImageSpecialization_init_def)
  obtain a1 where a1:
    "StageSpecialization_ctor ex_ext_storage ex_info_storage ex_rt ex_profile 3 = Inr a1"
    using ctor_total [OF c1] by blast
  obtain k1 where k1:
    "StageSpecialization_ctor ex_ext ex_info_storage ex_rt ex_profile 3 = Inr k1"
    using ctor_total [OF c1] by blast
  obtain a2 where a2:
    "StageSpecialization_ctor ex_ext_sampled ex_info_sampled ex_rt ex_profile 3 = Inr a2"
    using ctor_total [OF c2] by blast
  obtain k2 where k2:
    "StageSpecialization_ctor ex_ext ex_info_sampled ex_rt ex_profile 3 = Inr k2"
    using ctor_total [OF c2] by blast
  have "fetch_shader_data a1 = fetch_shader_data k1"
    by (simp add: ctor_Inr(4) [OF a1] ctor_Inr(4) [OF k1] ex_ext_storage_def)
  then have sh: "same_shape a1 k1" by (rule ctor_same_shape [OF a1 k1])
  have r1: "StageSpecialization_eq a1 k1 = Inr False"
    using image_mapping_compared_only_for_storage
      [of ex_ext_storage ex_info_storage ex_rt ex_profile 3 a1
          ex_ext ex_info_storage ex_rt ex_profile 3 k1 3 3 "ex_image 9" "ex_image 3"]
      a1 k1 sh c1 i1 g1 s1 d(1)
    by blast
  have r2: "ImageSpecialization.dst_select (images a2 ! 0) = 0 \<and>
            ImageSpecialization.dst_select (images k2 ! 0) = 0 \<and>
            StageSpecialization_eq a2 k2 = Inr True"
    using image_mapping_compared_only_for_storage
      [of _ _ _ _ _ _ _ _ _ _ _ _ _ _ _ _
          ex_ext_sampled ex_info_sampled ex_rt ex_profile 3 a2 ex_ext k2 1 "ex_image 1" 9]
      a2 k2 c2 i2 g2 s2 ex_ext_sampled_def
    unfolding z by blast
  show ?thesis
    using i1 i2 c1 c2 g1 g2 s1 s2 d a1 k1 a2 k2 sh r1 r2 by blast
qed

text \<open>
  C3, as stated, fails: the constructor parses the fetch shader before it looks at the
  stage or the profile. Built under a profile that supports legacy vertex attributes,
  the example vertex stage has its \<open>fetch_shader_data\<close> present.
\<close>

theorem fetch_shader_parsed_only_without_legacy_counterexample:
  "StageSpecialization_ctor ex_ext ex_info ex_rt ex_profile_legacy 3 = Inr ex_spec_legacy \<and>
   stage ex_info = Vertex \<and>
   support_legacy_vertex_attributes ex_profile_legacy \<and>
   fetch_shader_data ex_spec_legacy = Some \<lparr>attributes = [0, 1], fetch_shader_rest = 0\<rparr>"
proof -
  have b: "StageSpecialization_ctor ex_ext ex_info ex_rt ex_profile_legacy 3 = Inr ex_spec_legacy"
    by code_simp
  have f: "fetch_shader_data ex_spec_legacy = Some \<lparr>attributes = [0, 1], fetch_shader_rest = 0\<rparr>"
    by (simp add: ex_spec_legacy_def ex_spec_def)
  have l: "support_legacy_vertex_attributes ex_profile_legacy" "stage ex_info = Vertex"
    by (simp_all add: ex_profile_legacy_def ex_info_def)
  from b f l show ?thesis by simp
qed

text \<open>
  C3, amended. During construction the fetch shader is parsed into
  \<open>fetch_shader_data\<close> unconditionally: \<open>fetch_shader_data\<close> is what the parser
  returns for the provider, whatever the stage and the profile. What is done only when
  the stage is vertex, a fetch shader was parsed and the profile does not support legacy
  vertex-attribute semantics is the specialization of the vertex attributes:
  \<open>vs_attribs\<close> then has one entry per parsed attribute, and is empty otherwise.
\<close>

theorem fetch_shader_parsed_unconditionally:
  assumes "StageSpecialization_ctor ext i rt p st = Inr s"
  shows "fetch_shader_data s = ParseFetchShader ext i \<and>
         (stage i = Vertex \<and> ParseFetchShader ext i \<noteq> None \<and>
          \<not> support_legacy_vertex_attributes p \<longrightarrow>
            length (vs_attribs s) = length (attributes (the (ParseFetchShader ext i)))) \<and>
         (\<not> (stage i = Vertex \<and> ParseFetchShader ext i \<noteq> None \<and>
             \<not> support_legacy_vertex_attributes p) \<longrightarrow>
            vs_attribs s = [])"
  by (auto simp: ctor_Inr(4,5) [OF assms] built_vs_attribs_def)

text \<open>
  A run of the amended C3: the example built under both profiles has the same
  \<open>fetch_shader_data\<close>, with two vertex attributes under the first and none under the
  legacy one.
\<close>

theorem fetch_shader_parsed_unconditionally_witness:
  "StageSpecialization_ctor ex_ext ex_info ex_rt ex_profile 3 = Inr ex_spec \<and>
   stage ex_info = Vertex \<and> ParseFetchShader ex_ext ex_info \<noteq> None \<and>
   \<not> support_legacy_vertex_attributes ex_profile \<and>
   fetch_shader_data ex_spec = ParseFetchShader ex_ext ex_info \<and>
   length (vs_attribs ex_spec) = length (attributes (the (ParseFetchShader ex_ext ex_info))) \<and>
   (\<exists>s. StageSpecialization_ctor ex_ext ex_info ex_rt
          \<lparr>support_legacy_vertex_attributes = True\<rparr> 3 = Inr s \<and>
        fetch_shader_data s = ParseFetchShader ex_ext ex_info \<and> vs_attribs s = [])"
proof -
  have h: "stage ex_info = Vertex" "ParseFetchShader ex_ext ex_info \<noteq> None"
    "\<not> support_legacy_vertex_attributes ex_profile"
    by (simp_all add: ex_info_def ex_ext_def ex_profile_def)
  have c: "tracked_slots ex_info \<le> MaxStageResources"
    by (simp add: tracked_slots_def first_binding_def ex_info_def MaxStageResources_def)
  obtain s where s: "StageSpecialization_ctor ex_ext ex_info ex_rt
          \<lparr>support_legacy_vertex_attributes = True\<rparr> 3 = Inr s"
    using ctor_total [OF c] by blast
  have "fetch_shader_data s = ParseFetchShader ex_ext ex_info \<and> vs_attribs s = []"
    using fetch_shader_parsed_unconditionally [OF s] by simp
  with s show ?thesis
    using ex_spec_built h fetch_shader_parsed_unconditionally [OF ex_spec_built] by blast
qed

end
